theory Spec2Isabelle
  imports Complex_Main "HOL-Library.Sublist" "HOL-Library.AList"
begin

section \<open>JavaScript values\<close>

text \<open>
  The values the component handles come from \<^verbatim>\<open>JSON.parse\<close> (through \<^verbatim>\<open>res.json()\<close>) and
  from property reads on them. A parsed number is a finite double, hence a rational.
  An object is the list of its own properties in enumeration order (the order of
  \<^verbatim>\<open>Object.values\<close>); a key occurs once. A character stands for the UTF-16 code unit of the
  same number, so a \<open>string\<close> models a JavaScript string over U+0000..U+00FF.
\<close>

datatype jsval =
    Undefined
  | Null
  | JBool bool
  | JNum rat
  | JStr string
  | JArr "jsval list"
  | JObj "(string \<times> jsval) list"

text \<open>
  What is thrown: the TypeError of a property read on \<^verbatim>\<open>null\<close> or of a call of a missing
  method, the RangeError of an invalid array length or date, the SyntaxError of
  \<^verbatim>\<open>res.json()\<close>, the rejection of \<^verbatim>\<open>fetch\<close>, and the \<^verbatim>\<open>Error\<close> the component throws on a
  status that is not OK.
\<close>

datatype js_error = TypeError | RangeError | SyntaxError | NetworkError | HttpError nat

text \<open>Truthiness, as tested by \<^verbatim>\<open>!x\<close>, \<^verbatim>\<open>||\<close>, \<^verbatim>\<open>&&\<close> and \<^verbatim>\<open>if\<close>.\<close>

fun truthy :: "jsval \<Rightarrow> bool" where
  "truthy Undefined = False"
| "truthy Null = False"
| "truthy (JBool b) = b"
| "truthy (JNum n) = (n \<noteq> 0)"
| "truthy (JStr s) = (s \<noteq> [])"
| "truthy (JArr xs) = True"
| "truthy (JObj ps) = True"

text \<open>\<^verbatim>\<open>x1 || x2 || ... || d\<close>: the first truthy operand, else the last one.\<close>

fun or_chain :: "jsval list \<Rightarrow> jsval \<Rightarrow> jsval" where
  "or_chain [] d = d"
| "or_chain (x # xs) d = (if truthy x then x else or_chain xs d)"

text \<open>\<^verbatim>\<open>a && b\<close>: \<open>a\<close> when it is falsy, else \<open>b\<close>.\<close>

definition and_js :: "jsval \<Rightarrow> jsval \<Rightarrow> jsval" where
  "and_js a b = (if truthy a then b else a)"

text \<open>
  \<^verbatim>\<open>x == null\<close>: reading a property of such a value throws a TypeError. On every other
  value the read \<^verbatim>\<open>x.k\<close> yields the own property, or \<^verbatim>\<open>undefined\<close>: none of the keys the
  component reads is inherited from the prototype of an object, array, string, number
  or boolean.
\<close>

fun nullish :: "jsval \<Rightarrow> bool" where
  "nullish Undefined = True"
| "nullish Null = True"
| "nullish v = False"

fun get_prop :: "jsval \<Rightarrow> string \<Rightarrow> jsval" where
  "get_prop (JObj ps) k = (case map_of ps k of Some v \<Rightarrow> v | None \<Rightarrow> Undefined)"
| "get_prop v k = Undefined"

fun isArray :: "jsval \<Rightarrow> bool" where
  "isArray (JArr xs) = True"
| "isArray v = False"

fun elems :: "jsval \<Rightarrow> jsval list" where
  "elems (JArr xs) = xs"
| "elems v = []"

text \<open>\<^verbatim>\<open>a[0]\<close> on an array: the first element, \<^verbatim>\<open>undefined\<close> on the empty array.\<close>

fun index0 :: "jsval \<Rightarrow> jsval" where
  "index0 (JArr (x # xs)) = x"
| "index0 v = Undefined"

text \<open>\<^verbatim>\<open>typeof v === "string"\<close> and \<^verbatim>\<open>typeof v === "object"\<close> (which holds of \<^verbatim>\<open>null\<close> and of arrays).\<close>

fun isString :: "jsval \<Rightarrow> bool" where
  "isString (JStr s) = True"
| "isString v = False"

fun str_of :: "jsval \<Rightarrow> string" where
  "str_of (JStr s) = s"
| "str_of v = []"

fun typeof_object :: "jsval \<Rightarrow> bool" where
  "typeof_object Null = True"
| "typeof_object (JArr xs) = True"
| "typeof_object (JObj ps) = True"
| "typeof_object v = False"

text \<open>\<^verbatim>\<open>Object.values\<close>: the property values of an object, the elements of an array.\<close>

fun object_values :: "jsval \<Rightarrow> jsval list" where
  "object_values (JObj ps) = map snd ps"
| "object_values (JArr xs) = xs"
| "object_values v = []"

subsection \<open>Strings\<close>

text \<open>
  \<^verbatim>\<open>String.prototype.toLowerCase\<close> on U+0000..U+00FF: the upper-case letters are A..Z,
  U+00C0..U+00D6 and U+00D8..U+00DE, each 32 below its lower-case letter.
\<close>

definition lower_char :: "char \<Rightarrow> char" where
  "lower_char c =
     (let n = (of_char c :: nat)
      in if (65 \<le> n \<and> n \<le> 90) \<or> (192 \<le> n \<and> n \<le> 214) \<or> (216 \<le> n \<and> n \<le> 222)
         then char_of (n + 32) else c)"

definition toLowerCase :: "string \<Rightarrow> string" where
  "toLowerCase s = map lower_char s"

text \<open>\<^verbatim>\<open>s.includes(t)\<close>: \<open>t\<close> occurs in \<open>s\<close> as a contiguous block.\<close>

fun str_includes :: "string \<Rightarrow> string \<Rightarrow> bool" where
  "str_includes [] t = (t = [])"
| "str_includes (x # xs) t = (prefix t (x # xs) \<or> str_includes xs t)"

section \<open>Slot summaries\<close>

text \<open>
  \<^verbatim>\<open>type SlotSummary = { nextDate; isAvailable; cities: { name; nextDate; allDates;
  address? }[]; raw? }\<close>. The fields hold whatever the response carried, so they are
  JavaScript values; an optional field that is absent reads \<^verbatim>\<open>undefined\<close>.
\<close>

record City =
  city_name :: jsval
  city_nextDate :: jsval
  city_allDates :: jsval
  city_address :: jsval

record SlotSummary =
  nextDate :: jsval
  isAvailable :: bool
  cities :: "City list"
  slot_raw :: jsval

text \<open>\<^verbatim>\<open>xs.map(f)\<close> where the callback may throw: the first exception ends the call.\<close>

fun map_throwing :: "('a \<Rightarrow> js_error + 'b) \<Rightarrow> 'a list \<Rightarrow> js_error + 'b list" where
  "map_throwing f [] = Inr []"
| "map_throwing f (x # xs) =
     (case f x of
        Inl e \<Rightarrow> Inl e
      | Inr y \<Rightarrow> (case map_throwing f xs of Inl e \<Rightarrow> Inl e | Inr ys \<Rightarrow> Inr (y # ys)))"

text \<open>The three expressions of the mapping callback, for a centre record \<open>c\<close> that is not nullish.\<close>

definition centre_name :: "jsval \<Rightarrow> jsval" where
  "centre_name c =
     or_chain [get_prop c ''centre_name_fe'', get_prop c ''centre_name'', get_prop c ''cityName'',
               get_prop c ''name'', get_prop c ''city''] (JStr ''-'')"

definition primaryDate :: "jsval \<Rightarrow> jsval" where
  "primaryDate c =
     or_chain [get_prop c ''earliest_date'',
               and_js (JBool (isArray (get_prop c ''actual_dates''))) (index0 (get_prop c ''actual_dates'')),
               and_js (JBool (isArray (get_prop c ''all_dates''))) (index0 (get_prop c ''all_dates'')),
               get_prop c ''nextDate'',
               get_prop c ''firstAvailable''] Null"

definition allDates_of :: "jsval \<Rightarrow> jsval" where
  "allDates_of c =
     or_chain [and_js (JBool (isArray (get_prop c ''actual_dates''))) (get_prop c ''actual_dates''),
               and_js (JBool (isArray (get_prop c ''all_dates''))) (get_prop c ''all_dates'')] (JArr [])"

definition address_of :: "jsval \<Rightarrow> jsval" where
  "address_of c =
     or_chain [get_prop c ''address'', get_prop c ''center_address'', get_prop c ''vfs_address'',
               get_prop c ''location''] Null"

text \<open>
  The callback of src/src/SchengenAppointmentChecker.tsx (no address). Its first read,
  \<^verbatim>\<open>c.centre_name_fe\<close>, throws on \<^verbatim>\<open>null\<close>; every other read is of the same \<open>c\<close>.
\<close>

definition city_of :: "jsval \<Rightarrow> js_error + City" where
  "city_of c =
     (if nullish c then Inl TypeError
      else Inr \<lparr>city_name = centre_name c, city_nextDate = primaryDate c,
                city_allDates = allDates_of c, city_address = Undefined\<rparr>)"

text \<open>The callback of src/unnamed/part_000, which also reads the address.\<close>

definition city_of_v2 :: "jsval \<Rightarrow> js_error + City" where
  "city_of_v2 c =
     (if nullish c then Inl TypeError
      else Inr \<lparr>city_name = centre_name c, city_nextDate = primaryDate c,
                city_allDates = allDates_of c, city_address = address_of c\<rparr>)"

text \<open>\<^verbatim>\<open>(cities.find((c) => c.nextDate) || {}).nextDate\<close>\<close>

definition found_nextDate :: "City list \<Rightarrow> jsval" where
  "found_nextDate cs =
     (case find (\<lambda>c. truthy (city_nextDate c)) cs of
        Some c \<Rightarrow> city_nextDate c
      | None \<Rightarrow> Undefined)"

definition empty_summary :: SlotSummary where
  "empty_summary = \<lparr>nextDate = Null, isAvailable = False, cities = [], slot_raw = Undefined\<rparr>"

text \<open>
  \<^verbatim>\<open>nextDate = first || found || null; isAvailable = !!cities.length; return {...}\<close>,
  the common tail of the branches that map a list of centres.
\<close>

definition summary_of :: "jsval list \<Rightarrow> City list \<Rightarrow> SlotSummary" where
  "summary_of first cs =
     \<lparr>nextDate = or_chain (first @ [found_nextDate cs]) Null,
      isAvailable = (length cs \<noteq> 0), cities = cs, slot_raw = Undefined\<rparr>"

definition not_available_message :: "jsval \<Rightarrow> bool" where
  "not_available_message d =
     (isString (get_prop d ''message'') \<and>
      str_includes (toLowerCase (str_of (get_prop d ''message''))) ''not available'')"

text \<open>\<^verbatim>\<open>extractSummaryFromSlotsData\<close> of src/src/SchengenAppointmentChecker.tsx.\<close>

definition extractSummaryFromSlotsData :: "jsval \<Rightarrow> js_error + SlotSummary" where
  "extractSummaryFromSlotsData d =
     (if \<not> truthy d then Inr empty_summary
      else if isArray (get_prop d ''centre_dates'') then
        (case map_throwing city_of (elems (get_prop d ''centre_dates'')) of
           Inl e \<Rightarrow> Inl e
         | Inr cs \<Rightarrow> Inr (summary_of [get_prop d ''earliest_available_date''] cs))
      else if isArray d then
        (case map_throwing city_of (elems d) of
           Inl e \<Rightarrow> Inl e
         | Inr cs \<Rightarrow> Inr (summary_of [] cs))
      else if truthy d \<and> not_available_message d then Inr empty_summary
      else if truthy d \<and> typeof_object d then
        (case filter isArray (object_values d) of
           [] \<Rightarrow> Inr empty_summary
         | arr # rest \<Rightarrow>
             (case map_throwing city_of (elems arr) of
                Inl e \<Rightarrow> Inl e
              | Inr cs \<Rightarrow> Inr (summary_of [] cs)))
      else Inr empty_summary)"

text \<open>
  \<^verbatim>\<open>extractSummaryFromSlotsData\<close> of src/unnamed/part_000: no branch for a top-level
  array or for a message, and the whole body inside \<^verbatim>\<open>try\<close>, whose \<^verbatim>\<open>catch\<close> returns the
  empty summary.
\<close>

definition extractSummary_body_v2 :: "jsval \<Rightarrow> js_error + SlotSummary" where
  "extractSummary_body_v2 d =
     (if \<not> truthy d then Inr empty_summary
      else if isArray (get_prop d ''centre_dates'') then
        (case map_throwing city_of_v2 (elems (get_prop d ''centre_dates'')) of
           Inl e \<Rightarrow> Inl e
         | Inr cs \<Rightarrow> Inr (summary_of [get_prop d ''earliest_available_date''] cs))
      else if truthy d \<and> typeof_object d then
        (case filter isArray (object_values d) of
           [] \<Rightarrow> Inr empty_summary
         | arr # rest \<Rightarrow>
             (case map_throwing city_of_v2 (elems arr) of
                Inl e \<Rightarrow> Inl e
              | Inr cs \<Rightarrow> Inr (summary_of [] cs)))
      else Inr empty_summary)"

definition extractSummaryFromSlotsData_v2 :: "jsval \<Rightarrow> SlotSummary" where
  "extractSummaryFromSlotsData_v2 d =
     (case extractSummary_body_v2 d of Inl e \<Rightarrow> empty_summary | Inr s \<Rightarrow> s)"

text \<open>
  What that \<^verbatim>\<open>catch\<close> writes before it returns:
  \<^verbatim>\<open>console.error("extractSummaryFromSlotsData error", e)\<close>; nothing when the body returns.
\<close>

definition extractSummary_log_v2 :: "jsval \<Rightarrow> (string \<times> js_error) list" where
  "extractSummary_log_v2 d =
     (case extractSummary_body_v2 d of
        Inl e \<Rightarrow> [(''extractSummaryFromSlotsData error'', e)]
      | Inr s \<Rightarrow> [])"

section \<open>Component state, environment and effects\<close>

text \<open>
  \<^verbatim>\<open>type Country = { code; name; __raw?; availableSummary? }\<close>. The mapping of a
  response stores whatever value the record carried, so the fields are JavaScript values.
\<close>

record Country =
  code :: jsval
  name :: jsval
  country_raw :: jsval
  availableSummary :: jsval

text \<open>
  The \<^verbatim>\<open>useState\<close> variables of the component. \<open>slotsByCountry\<close> is the object's own
  properties in insertion order; a \<^verbatim>\<open>Date\<close> is its time value in milliseconds.
  \<open>selectedDate\<close> belongs to src/src/SchengenAppointmentChecker.tsx and
  \<open>focusedIsoDate\<close> to src/unnamed/part_000.
\<close>

record state =
  countries :: "Country list"
  filtered :: "Country list"
  query :: string
  selectedCountry :: "Country option"
  slotsByCountry :: "(string \<times> SlotSummary) list"
  loadingCountryCodes :: bool
  loadingSlots :: string
  error :: "string option"
  countriesRawDebug :: jsval
  offlineMode :: bool
  lastUpdatedAt :: "int option"
  selectedCityIndex :: nat
  selectedDate :: jsval
  focusedIsoDate :: jsval

text \<open>
  What \<^verbatim>\<open>await fetch(url)\<close> and then \<^verbatim>\<open>await res.json()\<close> give: the promise rejects, or a
  response arrives with its \<^verbatim>\<open>ok\<close> flag, its status and its body, \<open>None\<close> when the body
  does not parse as JSON.
\<close>

record http_response =
  ok :: bool
  status :: nat
  json :: "jsval option"

datatype fetch_outcome = Rejects | Responds http_response

text \<open>
  The environment of one call: whether \<^verbatim>\<open>fetch\<close> exists, what the network answers, and
  the clock read by \<^verbatim>\<open>new Date()\<close>. A call runs to its end without another event in
  between, on the state of the render that created it.
\<close>

record env =
  fetch_defined :: bool
  fetch :: "string \<Rightarrow> fetch_outcome"
  now :: int

datatype console_level = Log | Debug | Warn | Error

datatype log_arg = Val jsval | Thrown js_error

text \<open>
  The effects outside the state: a request \<^verbatim>\<open>fetch(url)\<close> (a GET, no options are passed),
  a console call with its label and arguments, and \<^verbatim>\<open>alert\<close> (its fixed text is left out).
\<close>

datatype effect =
    HttpGet string
  | Console console_level string "log_arg list"
  | Alert

subsection \<open>Demo data\<close>

definition demo_country :: "string \<Rightarrow> string \<Rightarrow> Country" where
  "demo_country c n =
     \<lparr>code = JStr c, name = JStr n, country_raw = Undefined, availableSummary = Undefined\<rparr>"

definition DEMO_COUNTRIES :: "Country list" where
  "DEMO_COUNTRIES =
     [demo_country ''FR'' ''France'', demo_country ''CH'' ''Switzerland'',
      demo_country ''DE'' ''Germany'']"

definition demo_city :: "string \<Rightarrow> string \<Rightarrow> string list \<Rightarrow> jsval \<Rightarrow> City" where
  "demo_city n d ds a =
     \<lparr>city_name = JStr n, city_nextDate = JStr d, city_allDates = JArr (map JStr ds),
      city_address = a\<rparr>"

definition demo_slot :: "string \<Rightarrow> City list \<Rightarrow> string \<Rightarrow> SlotSummary" where
  "demo_slot d cs note =
     \<lparr>nextDate = JStr d, isAvailable = True, cities = cs,
      slot_raw = JObj [(''note'', JStr note)]\<rparr>"

text \<open>\<^verbatim>\<open>DEMO_SLOTS\<close> of src/src/SchengenAppointmentChecker.tsx.\<close>

definition DEMO_SLOTS :: "(string \<times> SlotSummary) list" where
  "DEMO_SLOTS =
     [(''FR'', demo_slot ''December 15, 2025''
         [demo_city ''Ahmedabad'' ''December 15, 2025''
            [''December 15, 2025'', ''December 16, 2025'', ''December 17, 2025''] Undefined,
          demo_city ''Bangalore'' ''December 15, 2025''
            [''December 15, 2025'', ''December 18, 2025''] Undefined]
         ''Demo slots for France used because API could not be reached.''),
      (''CH'', demo_slot ''December 15, 2025''
         [demo_city ''Ahmedabad'' ''December 15, 2025''
            [''December 15, 2025'', ''December 20, 2025''] Undefined,
          demo_city ''Bangalore'' ''December 15, 2025''
            [''December 15, 2025'', ''December 22, 2025''] Undefined]
         ''Demo slots for Switzerland used because API could not be reached.'')]"

text \<open>\<^verbatim>\<open>DEMO_SLOTS\<close> of src/unnamed/part_000: ISO dates, and an address for each city.\<close>

definition DEMO_SLOTS_v2 :: "(string \<times> SlotSummary) list" where
  "DEMO_SLOTS_v2 =
     [(''FR'', demo_slot ''2025-12-15''
         [demo_city ''Ahmedabad'' ''2025-12-15'' [''2025-12-15'', ''2025-12-16'', ''2025-12-17'']
            (JStr ''VFS Global Ahmedabad, Some Street, Ahmedabad, 380001''),
          demo_city ''Bangalore'' ''2025-12-15'' [''2025-12-15'', ''2025-12-18'']
            (JStr ''VFS Bangalore, Address line, Bangalore, 560001'')]
         ''Demo slots for France used because API could not be reached.''),
      (''CH'', demo_slot ''2025-12-15''
         [demo_city ''Ahmedabad'' ''2025-12-15'' [''2025-12-15'', ''2025-12-20'']
            (JStr ''Switzerland VFS Ahmedabad, Some Street, Ahmedabad, 380001''),
          demo_city ''Bangalore'' ''2025-12-15'' [''2025-12-15'', ''2025-12-22'']
            (JStr ''Switzerland VFS Bangalore, Address line, Bangalore, 560001'')]
         ''Demo slots for Switzerland used because API could not be reached.'')]"

definition residence :: string where "residence = ''IN''"
definition citizenship :: string where "citizenship = ''IN''"
definition pincode :: string where "pincode = ''110001''"

section \<open>Fetching the countries\<close>

definition countries_url :: string where
  "countries_url =
     ''https://api.atlys.com/api/v3/countries?citizenship='' @ citizenship @
     ''&residence='' @ residence @ ''&pincode='' @ pincode @ ''&isEnterprise=false''"

text \<open>The list taken from the payload: the payload itself, or its \<^verbatim>\<open>countries\<close> or \<^verbatim>\<open>data\<close> field.\<close>

definition country_list :: "jsval \<Rightarrow> jsval list" where
  "country_list d =
     (if isArray d then elems d
      else if truthy d \<and> typeof_object d then
        (if isArray (get_prop d ''countries'') then elems (get_prop d ''countries'')
         else if isArray (get_prop d ''data'') then elems (get_prop d ''data'')
         else [])
      else [])"

text \<open>The callback of \<^verbatim>\<open>list.map\<close>; its first read, \<^verbatim>\<open>c.code\<close>, throws on \<^verbatim>\<open>null\<close>.\<close>

definition map_country :: "jsval \<Rightarrow> js_error + Country" where
  "map_country c =
     (if nullish c then Inl TypeError
      else Inr
        \<lparr>code = or_chain [get_prop c ''code'', get_prop c ''iso2_code'', get_prop c ''countryCode'',
                           get_prop c ''alpha2'', get_prop c ''iso2'', get_prop c ''iso'',
                           get_prop c ''country_code''] (JStr []),
         name = or_chain [get_prop c ''name'', get_prop c ''countryName'', get_prop c ''label'',
                           get_prop c ''title''] (JStr ''Unknown''),
         country_raw = c,
         availableSummary = Null\<rparr>)"

text \<open>
  The body of \<^verbatim>\<open>try\<close>: the effects, the state reached, and the exception when one is
  thrown (what was set before it stays set). In src/src/SchengenAppointmentChecker.tsx a
  body that does not parse is logged and read as \<^verbatim>\<open>null\<close>.
\<close>

definition fetchCountries_try :: "env \<Rightarrow> state \<Rightarrow> effect list \<times> state \<times> js_error option" where
  "fetchCountries_try e s =
     (case fetch e countries_url of
        Rejects \<Rightarrow> ([HttpGet countries_url], s, Some NetworkError)
      | Responds res \<Rightarrow>
          if \<not> ok res then ([HttpGet countries_url], s, Some (HttpError (status res)))
          else
            (let d = (case json res of None \<Rightarrow> Null | Some v \<Rightarrow> v);
                 fx = (case json res of
                         None \<Rightarrow> [Console Error ''Failed to parse countries JSON'' [Thrown SyntaxError]]
                       | Some v \<Rightarrow> []);
                 s1 = s\<lparr>countriesRawDebug := d\<rparr>
             in case map_throwing map_country (country_list d) of
                  Inl err \<Rightarrow> (HttpGet countries_url # fx, s1, Some err)
                | Inr mapped \<Rightarrow>
                    (HttpGet countries_url # fx,
                     s1\<lparr>offlineMode := False, countries := mapped, filtered := mapped\<rparr>, None)))"

definition fetchCountries :: "env \<Rightarrow> state \<Rightarrow> effect list \<times> state" where
  "fetchCountries e s0 =
     (let s1 = s0\<lparr>loadingCountryCodes := True, error := None\<rparr> in
      if \<not> fetch_defined e then
        ([], s1\<lparr>offlineMode := True, countries := DEMO_COUNTRIES, filtered := DEMO_COUNTRIES,
                 loadingCountryCodes := False,
                 error := Some ''Running in preview mode. Showing demo countries.'',
                 lastUpdatedAt := Some (now e)\<rparr>)
      else
        (case fetchCountries_try e s1 of
           (fx, s2, None) \<Rightarrow>
             (fx, s2\<lparr>loadingCountryCodes := False, lastUpdatedAt := Some (now e)\<rparr>)
         | (fx, s2, Some err) \<Rightarrow>
             (fx @ [Console Error ''Countries fetch failed'' [Thrown err]],
              s2\<lparr>offlineMode := True,
                  error := Some ''Could not reach Atlys countries API. Showing demo data.'',
                  countries := DEMO_COUNTRIES, filtered := DEMO_COUNTRIES,
                  loadingCountryCodes := False, lastUpdatedAt := Some (now e)\<rparr>)))"

text \<open>
  src/unnamed/part_000: \<^verbatim>\<open>const data = await res.json()\<close> is not guarded, so a body that
  does not parse throws to the outer \<^verbatim>\<open>catch\<close>; debug lines are logged.
\<close>

definition fetchCountries_try_v2 :: "env \<Rightarrow> state \<Rightarrow> effect list \<times> state \<times> js_error option" where
  "fetchCountries_try_v2 e s =
     (case fetch e countries_url of
        Rejects \<Rightarrow> ([HttpGet countries_url], s, Some NetworkError)
      | Responds res \<Rightarrow>
          if \<not> ok res then ([HttpGet countries_url], s, Some (HttpError (status res)))
          else
            (case json res of
               None \<Rightarrow> ([HttpGet countries_url], s, Some SyntaxError)
             | Some d \<Rightarrow>
                 (let s1 = s\<lparr>countriesRawDebug := d\<rparr>
                  in case map_throwing map_country (country_list d) of
                       Inl err \<Rightarrow> ([HttpGet countries_url], s1, Some err)
                     | Inr mapped \<Rightarrow>
                         ([HttpGet countries_url,
                           Console Debug ''fetchCountries success''
                             [Val (JNum (of_nat (length mapped)))]],
                          s1\<lparr>offlineMode := False, countries := mapped, filtered := mapped\<rparr>,
                          None))))"

definition fetchCountries_v2 :: "env \<Rightarrow> state \<Rightarrow> effect list \<times> state" where
  "fetchCountries_v2 e s0 =
     (let s1 = s0\<lparr>loadingCountryCodes := True, error := None\<rparr>;
          start = Console Debug ''fetchCountries start'' [] in
      if \<not> fetch_defined e then
        ([start],
         s1\<lparr>offlineMode := True, countries := DEMO_COUNTRIES, filtered := DEMO_COUNTRIES,
             loadingCountryCodes := False,
             error := Some ''Preview mode: showing demo countries.'',
             lastUpdatedAt := Some (now e)\<rparr>)
      else
        (case fetchCountries_try_v2 e s1 of
           (fx, s2, None) \<Rightarrow>
             (start # fx, s2\<lparr>loadingCountryCodes := False, lastUpdatedAt := Some (now e)\<rparr>)
         | (fx, s2, Some err) \<Rightarrow>
             (start # fx @ [Console Error ''fetchCountries error'' [Thrown err]],
              s2\<lparr>offlineMode := True,
                  error := Some ''Could not reach Atlys countries API. Showing demo data.'',
                  countries := DEMO_COUNTRIES, filtered := DEMO_COUNTRIES,
                  loadingCountryCodes := False, lastUpdatedAt := Some (now e)\<rparr>)))"

section \<open>Fetching the slots of a country\<close>

text \<open>
  \<^verbatim>\<open>encodeURIComponent\<close> on U+0000..U+00FF: letters, digits and \<^verbatim>\<open>- _ . ! ~ * ' ( )\<close> stay,
  every other code unit becomes the percent-escapes of its UTF-8 bytes (one byte below
  U+0080, two from there on), in upper-case hexadecimal.
\<close>

definition uri_unreserved :: "char \<Rightarrow> bool" where
  "uri_unreserved c =
     (let n = (of_char c :: nat)
      in (65 \<le> n \<and> n \<le> 90) \<or> (97 \<le> n \<and> n \<le> 122) \<or> (48 \<le> n \<and> n \<le> 57) \<or>
         c \<in> set ''-_.!~*()'' \<or> c = CHR 0x27)"

definition hex_digit :: "nat \<Rightarrow> char" where
  "hex_digit n = ''0123456789ABCDEF'' ! (n mod 16)"

definition percent_byte :: "nat \<Rightarrow> string" where
  "percent_byte n = [CHR ''%'', hex_digit (n div 16), hex_digit n]"

definition encode_char :: "char \<Rightarrow> string" where
  "encode_char c =
     (let n = (of_char c :: nat)
      in if uri_unreserved c then [c]
         else if n < 128 then percent_byte n
         else percent_byte (192 + n div 64) @ percent_byte (128 + n mod 64))"

definition encodeURIComponent :: "string \<Rightarrow> string" where
  "encodeURIComponent s = concat (map encode_char s)"

definition slots_url :: "string \<Rightarrow> string" where
  "slots_url countryCode =
     ''https://api.atlys.com/api/v2/application/slots/'' @ encodeURIComponent countryCode @
     ''?residence='' @ residence @ ''&citizenship='' @ citizenship @
     ''&purpose=atlys_black&travellersCount=1&withAllSlots=true&getCitiesWiseSlots=true''"

text \<open>The parameter \<^verbatim>\<open>countryCode: string | undefined | null\<close>.\<close>

datatype code_arg = CodeUndefined | CodeNull | Code string

text \<open>
  \<^verbatim>\<open>slotsByCountry[countryCode]\<close> is truthy when the object has the entry (an entry is an
  object) and also when the name is inherited from \<^verbatim>\<open>Object.prototype\<close>, since the state
  is a plain object.
\<close>

definition object_prototype_keys :: "string list" where
  "object_prototype_keys =
     [''constructor'', ''__defineGetter__'', ''__defineSetter__'', ''hasOwnProperty'',
      ''__lookupGetter__'', ''__lookupSetter__'', ''isPrototypeOf'', ''propertyIsEnumerable'',
      ''toString'', ''valueOf'', ''__proto__'', ''toLocaleString'']"

definition has_slot :: "(string \<times> SlotSummary) list \<Rightarrow> string \<Rightarrow> bool" where
  "has_slot m c = (map_of m c \<noteq> None \<or> c \<in> set object_prototype_keys)"

text \<open>
  \<^verbatim>\<open>DEMO_SLOTS[countryCode]\<close> when there is one, else the record with the given note. The
  read happens only after \<open>has_slot\<close> was false, so the name is not an inherited one.
\<close>

definition demo_or_fallback :: "(string \<times> SlotSummary) list \<Rightarrow> string \<Rightarrow> string \<Rightarrow> SlotSummary" where
  "demo_or_fallback demos c note =
     (case map_of demos c of
        Some d \<Rightarrow> d
      | None \<Rightarrow> \<lparr>nextDate = Null, isAvailable = False, cities = [],
                  slot_raw = JObj [(''note'', JStr note)]\<rparr>)"

text \<open>
  \<^verbatim>\<open>setSlotsByCountry((s) => ({ ...s, [countryCode]: v }))\<close>: the entry of the code is
  replaced where it stands, or added at the end. (JavaScript enumerates keys that are
  array indices before the others; the list keeps insertion order for them too, and
  the component's reads by key, which are all that is used below, do not depend on it.)
\<close>

definition set_slot :: "string \<Rightarrow> SlotSummary \<Rightarrow> state \<Rightarrow> state" where
  "set_slot c v s = s\<lparr>slotsByCountry := AList.update c v (slotsByCountry s)\<rparr>"

text \<open>The body of \<^verbatim>\<open>try\<close> in src/src/SchengenAppointmentChecker.tsx.\<close>

definition fetchSlots_try :: "env \<Rightarrow> string \<Rightarrow> state \<Rightarrow> effect list \<times> state \<times> js_error option" where
  "fetchSlots_try e c s =
     (case fetch e (slots_url c) of
        Rejects \<Rightarrow> ([HttpGet (slots_url c)], s, Some NetworkError)
      | Responds res \<Rightarrow>
          if \<not> ok res then ([HttpGet (slots_url c)], s, Some (HttpError (status res)))
          else
            (let d = (case json res of None \<Rightarrow> Null | Some v \<Rightarrow> v);
                 fx = (case json res of
                         None \<Rightarrow> [Console Error ''Failed to parse slots JSON'' [Thrown SyntaxError]]
                       | Some v \<Rightarrow> [])
             in case extractSummaryFromSlotsData d of
                  Inl err \<Rightarrow> (HttpGet (slots_url c) # fx, s, Some err)
                | Inr summary \<Rightarrow>
                    (HttpGet (slots_url c) # fx, set_slot c (summary\<lparr>slot_raw := d\<rparr>) s, None)))"

definition fetchSlotsForCountry :: "env \<Rightarrow> code_arg \<Rightarrow> state \<Rightarrow> effect list \<times> state" where
  "fetchSlotsForCountry e arg s0 =
     (case arg of
        CodeUndefined \<Rightarrow> ([], s0)
      | CodeNull \<Rightarrow> ([], s0)
      | Code c \<Rightarrow>
          if c = [] then ([], s0)
          else if has_slot (slotsByCountry s0) c then ([], s0)
          else
            (let s1 = s0\<lparr>loadingSlots := c, error := None\<rparr> in
             if offlineMode s0 \<or> \<not> fetch_defined e then
               ([],
                (set_slot c
                   (demo_or_fallback DEMO_SLOTS c
                      ''No demo slots configured for this country in offline mode.'') s1)
                \<lparr>loadingSlots := [], lastUpdatedAt := Some (now e)\<rparr>)
             else
               (case fetchSlots_try e c s1 of
                  (fx, s2, None) \<Rightarrow>
                    (fx, s2\<lparr>loadingSlots := [], lastUpdatedAt := Some (now e)\<rparr>)
                | (fx, s2, Some err) \<Rightarrow>
                    (fx @ [Console Error ''Slots fetch failed'' [Thrown err]],
                     (set_slot c
                        (demo_or_fallback DEMO_SLOTS c ''No slots available or API unreachable.'')
                        (s2\<lparr>error := Some (''Could not reach Atlys slots API for '' @ c @ ''.'')\<rparr>))
                     \<lparr>loadingSlots := [], lastUpdatedAt := Some (now e)\<rparr>))))"

text \<open>
  src/unnamed/part_000: a call for the country that is loading returns at once, the
  summary extraction cannot throw, and debug lines are logged.
\<close>

definition fetchSlots_try_v2 :: "env \<Rightarrow> string \<Rightarrow> state \<Rightarrow> effect list \<times> state \<times> js_error option" where
  "fetchSlots_try_v2 e c s =
     (case fetch e (slots_url c) of
        Rejects \<Rightarrow> ([HttpGet (slots_url c)], s, Some NetworkError)
      | Responds res \<Rightarrow>
          if \<not> ok res then ([HttpGet (slots_url c)], s, Some (HttpError (status res)))
          else
            (let d = (case json res of None \<Rightarrow> Null | Some v \<Rightarrow> v);
                 fx = (case json res of
                         None \<Rightarrow> [Console Warn ''Failed to parse slots JSON'' [Thrown SyntaxError]]
                       | Some v \<Rightarrow> []);
                 withRaw = (extractSummaryFromSlotsData_v2 d)\<lparr>slot_raw := d\<rparr>
             in (HttpGet (slots_url c) # fx @
                   map (\<lambda>(m, err). Console Error m [Thrown err]) (extractSummary_log_v2 d) @
                   [Console Debug ''fetchSlotsForCountry success''
                      [Val (JStr c), Val (JNum (of_nat (length (cities withRaw))))]],
                 set_slot c withRaw s, None)))"

definition fetchSlotsForCountry_v2 :: "env \<Rightarrow> code_arg \<Rightarrow> state \<Rightarrow> effect list \<times> state" where
  "fetchSlotsForCountry_v2 e arg s0 =
     (case arg of
        CodeUndefined \<Rightarrow> ([], s0)
      | CodeNull \<Rightarrow> ([], s0)
      | Code c \<Rightarrow>
          if c = [] then ([], s0)
          else if loadingSlots s0 = c then ([], s0)
          else if has_slot (slotsByCountry s0) c then
            ([Console Debug ''slots cached for'' [Val (JStr c)]], s0)
          else
            (let s1 = s0\<lparr>loadingSlots := c, error := None\<rparr>;
                 start = Console Debug ''fetchSlotsForCountry start'' [Val (JStr c)] in
             if offlineMode s0 \<or> \<not> fetch_defined e then
               ([start, Console Debug ''fetchSlotsForCountry offline fallback'' [Val (JStr c)]],
                (set_slot c
                   (demo_or_fallback DEMO_SLOTS_v2 c
                      ''No demo slots configured for this country in offline mode.'') s1)
                \<lparr>loadingSlots := [], lastUpdatedAt := Some (now e)\<rparr>)
             else
               (case fetchSlots_try_v2 e c s1 of
                  (fx, s2, None) \<Rightarrow>
                    (start # fx, s2\<lparr>loadingSlots := [], lastUpdatedAt := Some (now e)\<rparr>)
                | (fx, s2, Some err) \<Rightarrow>
                    (start # fx @ [Console Error ''Slots fetch failed'' [Thrown err]],
                     (set_slot c
                        (demo_or_fallback DEMO_SLOTS_v2 c ''No slots available or API unreachable.'')
                        (s2\<lparr>error := Some (''Could not reach Atlys slots API for '' @ c @ ''.'')\<rparr>))
                     \<lparr>loadingSlots := [], lastUpdatedAt := Some (now e)\<rparr>))))"

section \<open>Search\<close>

text \<open>
  \<^verbatim>\<open>(v || "").toLowerCase()\<close>: a falsy field counts as the empty string; on a truthy value
  that is not a string the call throws, since only strings have the method.
\<close>

definition lowered :: "jsval \<Rightarrow> js_error + string" where
  "lowered v =
     (let x = or_chain [v] (JStr [])
      in if isString x then Inr (toLowerCase (str_of x)) else Inl TypeError)"

text \<open>The predicate of \<^verbatim>\<open>countries.filter\<close>; the code is read only when the name does not match.\<close>

definition search_match :: "string \<Rightarrow> Country \<Rightarrow> js_error + bool" where
  "search_match lq c =
     (case lowered (name c) of
        Inl err \<Rightarrow> Inl err
      | Inr n \<Rightarrow>
          if str_includes n lq then Inr True
          else (case lowered (code c) of
                  Inl err \<Rightarrow> Inl err
                | Inr k \<Rightarrow> Inr (str_includes k lq)))"

text \<open>\<^verbatim>\<open>xs.filter(p)\<close> where the predicate may throw.\<close>

fun filter_throwing :: "('a \<Rightarrow> js_error + bool) \<Rightarrow> 'a list \<Rightarrow> js_error + 'a list" where
  "filter_throwing p [] = Inr []"
| "filter_throwing p (x # xs) =
     (case p x of
        Inl err \<Rightarrow> Inl err
      | Inr b \<Rightarrow>
          (case filter_throwing p xs of
             Inl err \<Rightarrow> Inl err
           | Inr ys \<Rightarrow> Inr (if b then x # ys else ys)))"

text \<open>
  \<^verbatim>\<open>onSearch\<close>, the same in both files: the state reached and the exception, if any
  (the query is set before the filter runs).
\<close>

definition onSearch :: "string \<Rightarrow> state \<Rightarrow> state \<times> js_error option" where
  "onSearch q s =
     (let s1 = s\<lparr>query := q\<rparr> in
      if q = [] then (s1\<lparr>filtered := countries s\<rparr>, None)
      else
        (case filter_throwing (search_match (toLowerCase q)) (countries s) of
           Inl err \<Rightarrow> (s1, Some err)
         | Inr ys \<Rightarrow> (s1\<lparr>filtered := ys\<rparr>, None)))"

section \<open>The booking button\<close>

text \<open>
  \<^verbatim>\<open>getCountryCode\<close> on a country of the state, whose properties are \<^verbatim>\<open>code\<close>, \<^verbatim>\<open>name\<close>,
  \<^verbatim>\<open>__raw\<close> and \<^verbatim>\<open>availableSummary\<close>: the reads of \<^verbatim>\<open>iso2_code\<close>, \<^verbatim>\<open>countryCode\<close>,
  \<^verbatim>\<open>alpha2\<close> and \<^verbatim>\<open>iso\<close> on it give \<^verbatim>\<open>undefined\<close>.
\<close>

definition getCountryCode :: "Country \<Rightarrow> jsval" where
  "getCountryCode obj =
     or_chain
       [code obj,
        Undefined,
        and_js (country_raw obj)
          (or_chain [get_prop (country_raw obj) ''iso2_code'', get_prop (country_raw obj) ''iso2'',
                     get_prop (country_raw obj) ''code'']
             (get_prop (country_raw obj) ''countryCode'')),
        Undefined, Undefined, Undefined]
       (JStr [])"

text \<open>
  What the handler of src/src/SchengenAppointmentChecker.tsx reads of \<^verbatim>\<open>activeModalData\<close>:
  the active city (\<open>None\<close> for \<^verbatim>\<open>undefined\<close>) and the effective selected date.
\<close>

record ActiveModalData =
  activeCity :: "City option"
  effectiveSelectedDate :: jsval

text \<open>\<^verbatim>\<open>activeCity?.name\<close>\<close>

definition activeCity_name :: "City option \<Rightarrow> jsval" where
  "activeCity_name a = (case a of None \<Rightarrow> Undefined | Some c \<Rightarrow> city_name c)"

text \<open>
  The \<^verbatim>\<open>onClick\<close> of "Book This Appointment" in src/src/SchengenAppointmentChecker.tsx, a
  closure over the selected country and \<^verbatim>\<open>activeModalData\<close> of the render.
\<close>

definition book_onClick :: "Country \<Rightarrow> ActiveModalData \<Rightarrow> state \<Rightarrow> effect list \<times> state" where
  "book_onClick sel amd s =
     ([Console Log ''Book appointment''
         [Val (JObj [(''country'', name sel),
                     (''countryCode'', getCountryCode sel),
                     (''center'', activeCity_name (activeCity amd)),
                     (''date'', effectiveSelectedDate amd)])]],
      s)"

text \<open>
  The \<^verbatim>\<open>onClick\<close> in \<^verbatim>\<open>ModalContent\<close> of src/unnamed/part_000, a closure over the selected
  country, \<^verbatim>\<open>code\<close>, \<^verbatim>\<open>activeCity\<close>, \<^verbatim>\<open>focusedIsoDate\<close> and \<^verbatim>\<open>datesForActiveCity\<close>.
\<close>

definition book_onClick_v2 ::
  "Country \<Rightarrow> jsval \<Rightarrow> City option \<Rightarrow> jsval \<Rightarrow> jsval list \<Rightarrow> state \<Rightarrow> effect list \<times> state" where
  "book_onClick_v2 sel code_v city focused dates s =
     ([Console Debug ''Book appointment''
         [Val (JObj [(''country'', name sel),
                     (''countryCode'', code_v),
                     (''center'', activeCity_name city),
                     (''date'', or_chain [focused] (or_chain [index0 (JArr dates)] Null))])],
       Alert],
      s)"

section \<open>The month grid\<close>

text \<open>
  A \<^verbatim>\<open>Date\<close> is its time value, the milliseconds since 1970-01-01T00:00Z, or \<open>None\<close> for
  an invalid date (\<^verbatim>\<open>NaN\<close>). The host gives the parser of date strings, the offset of
  local time from UTC in milliseconds (taken as fixed: a zone without daylight-saving
  changes) and the clock.
\<close>

record date_env =
  date_parse :: "string \<Rightarrow> int option"
  local_tza :: int
  date_now :: int

definition msPerDay :: int where
  "msPerDay = 86400000"

text \<open>The day number of a time value and its day of the week, 0 for Sunday.\<close>

definition day_of :: "int \<Rightarrow> int" where
  "day_of t = t div msPerDay"

definition week_day :: "int \<Rightarrow> int" where
  "week_day t = (day_of t + 4) mod 7"

text \<open>The day number of the first day of a year, and leap years (Gregorian calendar).\<close>

definition day_from_year :: "int \<Rightarrow> int" where
  "day_from_year y =
     365 * (y - 1970) + (y - 1969) div 4 - (y - 1901) div 100 + (y - 1601) div 400"

definition in_leap_year :: "int \<Rightarrow> bool" where
  "in_leap_year y = (y mod 4 = 0 \<and> (y mod 100 \<noteq> 0 \<or> y mod 400 = 0))"

text \<open>The day within the year on which month \<open>m\<close> (0 for January) starts; \<open>m = 12\<close> is the year's end.\<close>

definition month_start :: "int \<Rightarrow> nat \<Rightarrow> int" where
  "month_start y m =
     [0, 31, 59, 90, 120, 151, 181, 212, 243, 273, 304, 334, 365] ! m +
     (if in_leap_year y \<and> 2 \<le> m then 1 else 0)"

text \<open>
  The year of a day number: the \<open>y\<close> with \<open>day_from_year y \<le> d < day_from_year (y + 1)\<close>,
  found from an estimate that is off by at most one.
\<close>

definition year_from_day :: "int \<Rightarrow> int" where
  "year_from_day d =
     (let y = 1970 + (d * 400) div 146097
      in if d < day_from_year y then y - 1
         else if day_from_year (y + 1) \<le> d then y + 1
         else y)"

text \<open>The month (0 to 11) and the day of the month (from 1) of a day number.\<close>

definition month_from_day :: "int \<Rightarrow> nat" where
  "month_from_day d =
     (let y = year_from_day d; w = d - day_from_year y
      in length (filter (\<lambda>m. month_start y m \<le> w) [1..<12]))"

definition date_from_day :: "int \<Rightarrow> int" where
  "date_from_day d =
     (let y = year_from_day d; w = d - day_from_year y
      in w - month_start y (month_from_day d) + 1)"

text \<open>
  \<^verbatim>\<open>new Date(year, month, date)\<close>: a year from 0 to 99 means 1900 plus it; months beyond
  the year carry into the years; the fields are local time; a time value beyond
  8.64e15 in size is invalid.
\<close>

definition make_day :: "int \<Rightarrow> int \<Rightarrow> int \<Rightarrow> int" where
  "make_day year month date =
     (let ym = year + month div 12; mn = nat (month mod 12)
      in day_from_year ym + month_start ym mn + date - 1)"

definition time_clip :: "int \<Rightarrow> int option" where
  "time_clip t = (if \<bar>t\<bar> \<le> 8640000000000000 then Some t else None)"

definition new_Date :: "date_env \<Rightarrow> int \<Rightarrow> int \<Rightarrow> int \<Rightarrow> int option" where
  "new_Date e year month date =
     (let yr = (if 0 \<le> year \<and> year \<le> 99 then 1900 + year else year)
      in time_clip (make_day yr month date * msPerDay - local_tza e))"

definition getFullYear :: "date_env \<Rightarrow> int \<Rightarrow> int" where
  "getFullYear e t = year_from_day (day_of (t + local_tza e))"

definition getMonth :: "date_env \<Rightarrow> int \<Rightarrow> int" where
  "getMonth e t = int (month_from_day (day_of (t + local_tza e)))"

definition getDate :: "date_env \<Rightarrow> int \<Rightarrow> int" where
  "getDate e t = date_from_day (day_of (t + local_tza e))"

definition getDay :: "date_env \<Rightarrow> int \<Rightarrow> int" where
  "getDay e t = week_day (t + local_tza e)"

text \<open>Decimal digits, padded with zeros to a width.\<close>

fun pad :: "nat \<Rightarrow> nat \<Rightarrow> string" where
  "pad 0 k = []"
| "pad (Suc n) k = pad n (k div 10) @ [''0123456789'' ! (k mod 10)]"

text \<open>
  \<^verbatim>\<open>d.toISOString().slice(0, 10)\<close> on a valid date: the UTC date, \<^verbatim>\<open>YYYY-MM-DD\<close> for the
  years 0 to 9999; other years are written with a sign and six digits, of which the
  slice keeps the year and the month.
\<close>

definition iso_slice :: "int \<Rightarrow> string" where
  "iso_slice t =
     (let d = day_of t; y = year_from_day d; m = month_from_day d + 1; dd = nat (date_from_day d)
      in if 0 \<le> y \<and> y \<le> 9999 then pad 4 (nat y) @ ''-'' @ pad 2 m @ ''-'' @ pad 2 dd
         else (if y < 0 then ''-'' else ''+'') @ pad 6 (nat \<bar>y\<bar>) @ ''-'' @ pad 2 m)"

text \<open>The value \<^verbatim>\<open>buildMonthGrid\<close> returns.\<close>

record month_grid =
  weeks :: "string list list"
  grid_year :: int
  monthIndex :: int
  availableSet :: "string set"
  selectedIso :: "string option"

text \<open>\<^verbatim>\<open>focusedIso || (isoDates && isoDates[0]) || null\<close>, on strings.\<close>

definition selected_of :: "string list \<Rightarrow> string option \<Rightarrow> string option" where
  "selected_of isoDates focusedIso =
     (case focusedIso of
        Some f \<Rightarrow> if f \<noteq> [] then Some f else (case isoDates of x # xs \<Rightarrow> if x \<noteq> [] then Some x else None | [] \<Rightarrow> None)
      | None \<Rightarrow> (case isoDates of x # xs \<Rightarrow> if x \<noteq> [] then Some x else None | [] \<Rightarrow> None))"

text \<open>The callback that normalises an available date; an invalid date stays as it is.\<close>

definition available_key :: "date_env \<Rightarrow> string \<Rightarrow> string" where
  "available_key e d = (case date_parse e d of Some t \<Rightarrow> iso_slice t | None \<Rightarrow> d)"

text \<open>
  The cell of a day, \<^verbatim>\<open>new Date(year, month, day).toISOString().slice(0, 10)\<close>, which
  throws a RangeError on an invalid date.
\<close>

definition day_cell :: "date_env \<Rightarrow> int \<Rightarrow> int \<Rightarrow> nat \<Rightarrow> js_error + string" where
  "day_cell e year month day =
     (case new_Date e year month (int day) of
        None \<Rightarrow> Inl RangeError
      | Some t \<Rightarrow> Inr (iso_slice t))"

text \<open>The \<^verbatim>\<open>for\<close> loop over the days, with the week being filled and the weeks done so far.\<close>

fun fill_weeks ::
  "(nat \<Rightarrow> js_error + string) \<Rightarrow> nat list \<Rightarrow> string list \<Rightarrow> string list list \<Rightarrow>
   js_error + (string list list \<times> string list)" where
  "fill_weeks cell [] week wks = Inr (wks, week)"
| "fill_weeks cell (day # days) week wks =
     (case cell day of
        Inl err \<Rightarrow> Inl err
      | Inr d \<Rightarrow>
          if length (week @ [d]) = 7 then fill_weeks cell days [] (wks @ [week @ [d]])
          else fill_weeks cell days (week @ [d]) wks)"

text \<open>\<^verbatim>\<open>if (week.length) { while (week.length < 7) week.push(""); weeks.push(week) }\<close>\<close>

definition close_weeks :: "string list list \<times> string list \<Rightarrow> string list list" where
  "close_weeks p =
     (case p of (wks, week) \<Rightarrow>
        if week = [] then wks else wks @ [week @ replicate (7 - length week) []])"

text \<open>
  The body of \<^verbatim>\<open>try\<close> in \<^verbatim>\<open>buildMonthGrid\<close>. With an invalid anchor or first of the month
  the start day is \<^verbatim>\<open>NaN\<close> and \<^verbatim>\<open>new Array(startDay)\<close> throws a RangeError; with an invalid
  end of the month the loop does not run.
\<close>

definition buildMonthGrid_try :: "date_env \<Rightarrow> string list \<Rightarrow> string option \<Rightarrow> js_error + month_grid" where
  "buildMonthGrid_try e isoDates focusedIso =
     (let selected = selected_of isoDates focusedIso;
          anchor = (case selected of Some sel \<Rightarrow> date_parse e sel | None \<Rightarrow> Some (date_now e))
      in case anchor of
           None \<Rightarrow> Inl RangeError
         | Some a \<Rightarrow>
             (let year = getFullYear e a; month = getMonth e a
              in case new_Date e year month 1 of
                   None \<Rightarrow> Inl RangeError
                 | Some firstOfMonth \<Rightarrow>
                     (let startDay = nat (getDay e firstOfMonth);
                          daysInMonth = (case new_Date e year (month + 1) 0 of
                                           None \<Rightarrow> 0
                                         | Some l \<Rightarrow> nat (getDate e l))
                      in case fill_weeks (day_cell e year month) [1..<Suc daysInMonth]
                                (replicate startDay []) [] of
                           Inl err \<Rightarrow> Inl err
                         | Inr p \<Rightarrow>
                             Inr \<lparr>weeks = close_weeks p, grid_year = year, monthIndex = month,
                                  availableSet = set (map (available_key e) isoDates),
                                  selectedIso = selected\<rparr>)))"

text \<open>\<^verbatim>\<open>buildMonthGrid\<close> of src/unnamed/part_000; the \<^verbatim>\<open>catch\<close> logs and returns no weeks.\<close>

definition buildMonthGrid :: "date_env \<Rightarrow> string list \<Rightarrow> string option \<Rightarrow> effect list \<times> month_grid" where
  "buildMonthGrid e isoDates focusedIso =
     (case buildMonthGrid_try e isoDates focusedIso of
        Inr g \<Rightarrow> ([], g)
      | Inl err \<Rightarrow>
          ([Console Error ''buildMonthGrid error'' [Thrown err]],
           \<lparr>weeks = [], grid_year = getFullYear e (date_now e),
            monthIndex = getMonth e (date_now e), availableSet = {}, selectedIso = None\<rparr>))"

text \<open>The \<^verbatim>\<open>useState\<close> initial values.\<close>

definition initial_state :: state where
  "initial_state =
     \<lparr>countries = [], filtered = [], query = [], selectedCountry = None, slotsByCountry = [],
      loadingCountryCodes = False, loadingSlots = [], error = None, countriesRawDebug = Null,
      offlineMode = False, lastUpdatedAt = None, selectedCityIndex = 0, selectedDate = Null,
      focusedIsoDate = Null\<rparr>"

section \<open>Notions used to state the properties\<close>

text \<open>
  A string contains \<open>q\<close> as a case-insensitive substring: some contiguous block of it
  equals \<open>q\<close> up to the case of letters.
\<close>

definition contains_case_insensitive :: "string \<Rightarrow> string \<Rightarrow> bool" where
  "contains_case_insensitive s q =
     (\<exists>pre mid post. s = pre @ mid @ post \<and> toLowerCase mid = toLowerCase q)"

text \<open>Environments and responses on which the properties are exercised.\<close>

definition rejecting_env :: env where
  "rejecting_env = \<lparr>fetch_defined = True, fetch = (\<lambda>u. Rejects), now = 0\<rparr>"

definition unparsable_env :: env where
  "unparsable_env =
     \<lparr>fetch_defined = True,
      fetch = (\<lambda>u. Responds \<lparr>ok = True, status = 200, json = None\<rparr>),
      now = 0\<rparr>"

definition not_found_env :: env where
  "not_found_env =
     \<lparr>fetch_defined = True,
      fetch = (\<lambda>u. Responds \<lparr>ok = False, status = 404, json = None\<rparr>),
      now = 0\<rparr>"

definition null_centre_env :: env where
  "null_centre_env =
     \<lparr>fetch_defined = True,
      fetch = (\<lambda>u. Responds \<lparr>ok = True, status = 200,
                               json = Some (JObj [(''centre_dates'', JArr [Null])])\<rparr>),
      now = 0\<rparr>"

definition delhi_response :: jsval where
  "delhi_response =
     JObj [(''centre_dates'',
            JArr [JObj [(''centre_name'', JStr ''Delhi''),
                        (''actual_dates'', JArr [JStr ''2025-12-15''])]])]"

definition delhi_city :: "jsval \<Rightarrow> City" where
  "delhi_city a =
     \<lparr>city_name = JStr ''Delhi'', city_nextDate = JStr ''2025-12-15'',
      city_allDates = JArr [JStr ''2025-12-15''], city_address = a\<rparr>"

definition other_response :: jsval where
  "other_response = JObj [(''message'', JStr ''try later''), (''count'', JNum 3)]"

text \<open>
  A URL up to its query, the query after the first \<^verbatim>\<open>?\<close>, and the names of the query
  parameters: the query split at \<^verbatim>\<open>&\<close>, each part cut at its \<^verbatim>\<open>=\<close>.
\<close>

definition url_path_part :: "string \<Rightarrow> string" where
  "url_path_part u = takeWhile (\<lambda>c. c \<noteq> CHR ''?'') u"

definition url_query_part :: "string \<Rightarrow> string" where
  "url_query_part u = drop 1 (dropWhile (\<lambda>c. c \<noteq> CHR ''?'') u)"

fun split_on :: "char \<Rightarrow> string \<Rightarrow> string list" where
  "split_on sep [] = [[]]"
| "split_on sep (c # cs) =
     (if c = sep then [] # split_on sep cs
      else (case split_on sep cs of w # ws \<Rightarrow> (c # w) # ws | [] \<Rightarrow> [[c]]))"

definition query_param_names :: "string \<Rightarrow> string list" where
  "query_param_names u =
     map (takeWhile (\<lambda>c. c \<noteq> CHR ''='')) (split_on (CHR ''&'') (url_query_part u))"

text \<open>The fields tried for the code and for the name of a country, in the order tried.\<close>

definition code_keys :: "string list" where
  "code_keys =
     [''code'', ''iso2_code'', ''countryCode'', ''alpha2'', ''iso2'', ''iso'', ''country_code'']"

definition name_keys :: "string list" where
  "name_keys = [''name'', ''countryName'', ''label'', ''title'']"

text \<open>
  The first of the fields that is present in a record (the record has the key), else a
  default: the reading of the normalisation that C8 states.
\<close>

definition first_present :: "jsval \<Rightarrow> string list \<Rightarrow> jsval \<Rightarrow> jsval" where
  "first_present c keys dflt =
     (case filter (\<lambda>k. get_prop c k \<noteq> Undefined) keys of
        [] \<Rightarrow> dflt
      | k # ks \<Rightarrow> get_prop c k)"

text \<open>
  The first of the fields whose value is truthy (neither absent nor \<^verbatim>\<open>null\<close>, \<^verbatim>\<open>false\<close>,
  \<^verbatim>\<open>0\<close> or \<^verbatim>\<open>""\<close>), else a default, and the country built from a record in this way.
\<close>

definition first_truthy :: "jsval \<Rightarrow> string list \<Rightarrow> jsval \<Rightarrow> jsval" where
  "first_truthy c keys dflt =
     (case filter (\<lambda>k. truthy (get_prop c k)) keys of
        [] \<Rightarrow> dflt
      | k # ks \<Rightarrow> get_prop c k)"

definition normalized_country :: "jsval \<Rightarrow> Country" where
  "normalized_country c =
     \<lparr>code = first_truthy c code_keys (JStr []),
      name = first_truthy c name_keys (JStr ''Unknown''),
      country_raw = c, availableSummary = Null\<rparr>"

text \<open>A countries response in which one record carries a number as its code.\<close>

definition numeric_code_env :: env where
  "numeric_code_env =
     \<lparr>fetch_defined = True,
      fetch = (\<lambda>u. Responds \<lparr>ok = True, status = 200,
                json = Some (JArr [JObj [(''code'', JNum 33), (''name'', JStr ''France'')],
                                   JObj [(''code'', JStr ''DE''), (''name'', JStr ''Germany'')]])\<rparr>),
      now = 0\<rparr>"

text \<open>An effect that is a console call.\<close>

fun is_console :: "effect \<Rightarrow> bool" where
  "is_console (Console l m args) = True"
| "is_console fx = False"

text \<open>A record whose \<^verbatim>\<open>code\<close> is the empty string, and a response that carries it.\<close>

definition empty_code_record :: jsval where
  "empty_code_record =
     JObj [(''code'', JStr []), (''iso2_code'', JStr ''FR''), (''name'', JStr ''France'')]"

definition empty_code_env :: env where
  "empty_code_env =
     \<lparr>fetch_defined = True,
      fetch = (\<lambda>u. Responds \<lparr>ok = True, status = 200,
                               json = Some (JObj [(''countries'', JArr [empty_code_record])])\<rparr>),
      now = 0\<rparr>"

text \<open>
  A browser in the zone UTC+05:30 (Asia/Kolkata), whose parser reads the date-only string
  \<^verbatim>\<open>2025-12-15\<close> as midnight UTC of that day.
\<close>

definition kolkata_env :: date_env where
  "kolkata_env =
     \<lparr>date_parse = (\<lambda>s. if s = ''2025-12-15'' then Some 1765756800000 else None),
      local_tza = 19800000, date_now = 0\<rparr>"

text \<open>The first demo city of France in src/unnamed/part_000.\<close>

definition ahmedabad :: City where
  "ahmedabad =
     demo_city ''Ahmedabad'' ''2025-12-15'' [''2025-12-15'', ''2025-12-16'', ''2025-12-17'']
       (JStr ''VFS Global Ahmedabad, Some Street, Ahmedabad, 380001'')"

section \<open>Properties of the summary extraction\<close>

lemma summary_of_available: "isAvailable (summary_of f cs) = (cities (summary_of f cs) \<noteq> [])"
  by (simp add: summary_of_def)

lemma empty_summary_available: "isAvailable empty_summary = (cities empty_summary \<noteq> [])"
  by (simp add: empty_summary_def)

lemma extract_available:
  "extractSummaryFromSlotsData d = Inr s \<Longrightarrow> isAvailable s = (cities s \<noteq> [])"
  unfolding extractSummaryFromSlotsData_def
  by (auto simp: summary_of_available empty_summary_available
           split: if_splits sum.splits list.splits)

lemma extract_body_v2_available:
  "extractSummary_body_v2 d = Inr s \<Longrightarrow> isAvailable s = (cities s \<noteq> [])"
  unfolding extractSummary_body_v2_def
  by (auto simp: summary_of_available empty_summary_available
           split: if_splits sum.splits list.splits)

lemma extract_Null: "extractSummaryFromSlotsData Null = Inr empty_summary"
  by (simp add: extractSummaryFromSlotsData_def)

lemma extract_v2_Null: "extractSummaryFromSlotsData_v2 Null = empty_summary"
  by (simp add: extractSummaryFromSlotsData_v2_def extractSummary_body_v2_def)

lemma extract_delhi:
  "extractSummaryFromSlotsData delhi_response =
     Inr \<lparr>nextDate = JStr ''2025-12-15'', isAvailable = True, cities = [delhi_city Undefined],
          slot_raw = Undefined\<rparr>"
  by (simp add: extractSummaryFromSlotsData_def delhi_response_def delhi_city_def city_of_def
        summary_of_def found_nextDate_def centre_name_def primaryDate_def allDates_of_def and_js_def)

lemma extract_v2_delhi:
  "extractSummaryFromSlotsData_v2 delhi_response =
     \<lparr>nextDate = JStr ''2025-12-15'', isAvailable = True, cities = [delhi_city Null],
      slot_raw = Undefined\<rparr>"
  by (simp add: extractSummaryFromSlotsData_v2_def extractSummary_body_v2_def delhi_response_def
        delhi_city_def city_of_v2_def summary_of_def found_nextDate_def centre_name_def
        primaryDate_def allDates_of_def address_of_def and_js_def)

text \<open>
  C9. Whenever \<^verbatim>\<open>extractSummaryFromSlotsData\<close> returns a summary, \<open>isAvailable\<close> is true
  exactly when the list of cities is not empty. The function of
  src/src/SchengenAppointmentChecker.tsx returns unless a centre record is \<^verbatim>\<open>null\<close>; the one
  of src/unnamed/part_000 always returns.
\<close>

theorem extractSummary_available_iff_cities:
  "(\<forall>s. extractSummaryFromSlotsData d = Inr s \<longrightarrow> (isAvailable s \<longleftrightarrow> cities s \<noteq> [])) \<and>
   (isAvailable (extractSummaryFromSlotsData_v2 d) \<longleftrightarrow>
      cities (extractSummaryFromSlotsData_v2 d) \<noteq> [])"
proof (intro conjI allI impI)
  fix s assume "extractSummaryFromSlotsData d = Inr s"
  then show "isAvailable s \<longleftrightarrow> cities s \<noteq> []"
    by (rule extract_available)
next
  show "isAvailable (extractSummaryFromSlotsData_v2 d) \<longleftrightarrow>
        cities (extractSummaryFromSlotsData_v2 d) \<noteq> []"
    unfolding extractSummaryFromSlotsData_v2_def
    by (auto simp: extract_body_v2_available empty_summary_available split: sum.splits)
qed

theorem extractSummary_available_iff_cities_witness:
  "extractSummaryFromSlotsData delhi_response =
     Inr \<lparr>nextDate = JStr ''2025-12-15'', isAvailable = True, cities = [delhi_city Undefined],
          slot_raw = Undefined\<rparr> \<and>
   isAvailable (extractSummaryFromSlotsData_v2 delhi_response) \<and>
   cities (extractSummaryFromSlotsData_v2 delhi_response) \<noteq> [] \<and>
   \<not> isAvailable (extractSummaryFromSlotsData_v2 other_response) \<and>
   cities (extractSummaryFromSlotsData_v2 other_response) = []"
proof -
  have v2: "isAvailable (extractSummaryFromSlotsData_v2 delhi_response)"
    by (simp add: extract_v2_delhi)
  have other: "cities (extractSummaryFromSlotsData_v2 other_response) = []"
    by (simp add: extractSummaryFromSlotsData_v2_def extractSummary_body_v2_def other_response_def
          empty_summary_def)
  from extractSummary_available_iff_cities [of delhi_response]
       extractSummary_available_iff_cities [of other_response] v2 other extract_delhi
  show ?thesis by simp
qed

text \<open>
  C3. An input that is \<^verbatim>\<open>null\<close> or \<^verbatim>\<open>undefined\<close>, or an object with no array-valued
  \<^verbatim>\<open>centre_dates\<close>, no "not available" message and no array-valued field at all, gives
  the empty result \<^verbatim>\<open>{ nextDate: null, cities: [], isAvailable: false }\<close>, in both files.
\<close>

theorem extractSummary_unrecognized_empty:
  assumes "d = Undefined \<or> d = Null \<or>
     (\<exists>ps. d = JObj ps \<and> \<not> isArray (get_prop d ''centre_dates'') \<and>
           \<not> not_available_message d \<and> (\<forall>v \<in> set (object_values d). \<not> isArray v))"
  shows "extractSummaryFromSlotsData d = Inr empty_summary \<and>
         extractSummaryFromSlotsData_v2 d = empty_summary"
proof -
  from assms consider "d = Undefined" | "d = Null"
    | ps where "d = JObj ps" "\<not> isArray (get_prop d ''centre_dates'')"
               "\<forall>v \<in> set (object_values d). \<not> isArray v"
    by blast
  then show ?thesis
  proof cases
    case 1
    then show ?thesis
      by (simp add: extractSummaryFromSlotsData_def extractSummaryFromSlotsData_v2_def
            extractSummary_body_v2_def)
  next
    case 2
    then show ?thesis
      by (simp add: extract_Null extract_v2_Null)
  next
    case 3
    then have "filter isArray (object_values d) = []"
      by (simp add: filter_empty_conv)
    with 3 show ?thesis
      by (simp add: extractSummaryFromSlotsData_def extractSummaryFromSlotsData_v2_def
            extractSummary_body_v2_def)
  qed
qed

theorem extractSummary_unrecognized_empty_witness:
  "\<not> isArray (get_prop other_response ''centre_dates'') \<and>
   \<not> not_available_message other_response \<and>
   list_all (\<lambda>v. \<not> isArray v) (object_values other_response) \<and>
   extractSummaryFromSlotsData other_response = Inr empty_summary \<and>
   extractSummaryFromSlotsData_v2 other_response = empty_summary \<and>
   extractSummaryFromSlotsData Null = Inr empty_summary \<and>
   extractSummaryFromSlotsData_v2 Null = empty_summary"
proof -
  have h1: "\<not> isArray (get_prop other_response ''centre_dates'')"
    by (simp add: other_response_def)
  have h2: "\<not> not_available_message other_response"
    unfolding not_available_message_def other_response_def by code_simp
  have h3: "\<forall>v \<in> set (object_values other_response). \<not> isArray v"
    by (simp add: other_response_def)
  have h: "\<exists>ps. other_response = JObj ps \<and> \<not> isArray (get_prop other_response ''centre_dates'') \<and>
           \<not> not_available_message other_response \<and>
           (\<forall>v \<in> set (object_values other_response). \<not> isArray v)"
    using h1 h2 h3 by (simp add: other_response_def)
  from extractSummary_unrecognized_empty [of other_response] h
       extractSummary_unrecognized_empty [of Null] h1 h2 h3
  show ?thesis by (simp add: list_all_iff)
qed

section \<open>Properties of the two fetches\<close>

text \<open>
  C2. When the countries request fails (\<^verbatim>\<open>fetch\<close> rejects, or the status is not OK),
  \<^verbatim>\<open>fetchCountries\<close> sets the countries and the filtered list to \<^verbatim>\<open>DEMO_COUNTRIES\<close>, sets
  \<open>offlineMode\<close>, and sets the advisory error string, in both files.
\<close>

theorem fetchCountries_failure_demo:
  assumes "fetch_defined e"
    and "fetch e countries_url = Rejects \<or> (\<exists>r. fetch e countries_url = Responds r \<and> \<not> ok r)"
  shows "countries (snd (fetchCountries e s)) = DEMO_COUNTRIES \<and>
         filtered (snd (fetchCountries e s)) = DEMO_COUNTRIES \<and>
         offlineMode (snd (fetchCountries e s)) \<and>
         error (snd (fetchCountries e s)) =
           Some ''Could not reach Atlys countries API. Showing demo data.'' \<and>
         countries (snd (fetchCountries_v2 e s)) = DEMO_COUNTRIES \<and>
         filtered (snd (fetchCountries_v2 e s)) = DEMO_COUNTRIES \<and>
         offlineMode (snd (fetchCountries_v2 e s)) \<and>
         error (snd (fetchCountries_v2 e s)) =
           Some ''Could not reach Atlys countries API. Showing demo data.''"
  using assms
  by (auto simp: fetchCountries_def fetchCountries_try_def fetchCountries_v2_def
        fetchCountries_try_v2_def)

theorem fetchCountries_failure_demo_witness:
  "fetch_defined rejecting_env \<and> fetch rejecting_env countries_url = Rejects \<and>
   countries (snd (fetchCountries rejecting_env initial_state)) = DEMO_COUNTRIES \<and>
   filtered (snd (fetchCountries rejecting_env initial_state)) = DEMO_COUNTRIES \<and>
   offlineMode (snd (fetchCountries rejecting_env initial_state)) \<and>
   error (snd (fetchCountries rejecting_env initial_state)) =
     Some ''Could not reach Atlys countries API. Showing demo data.'' \<and>
   countries (snd (fetchCountries_v2 rejecting_env initial_state)) = DEMO_COUNTRIES \<and>
   offlineMode (snd (fetchCountries_v2 rejecting_env initial_state)) \<and>
   fetch not_found_env countries_url = Responds \<lparr>ok = False, status = 404, json = None\<rparr> \<and>
   countries (snd (fetchCountries not_found_env initial_state)) = DEMO_COUNTRIES \<and>
   filtered (snd (fetchCountries_v2 not_found_env initial_state)) = DEMO_COUNTRIES \<and>
   error (snd (fetchCountries_v2 not_found_env initial_state)) =
     Some ''Could not reach Atlys countries API. Showing demo data.''"
proof -
  have h: "fetch_defined rejecting_env" "fetch rejecting_env countries_url = Rejects"
    by (simp_all add: rejecting_env_def)
  have k: "fetch_defined not_found_env"
    "fetch not_found_env countries_url = Responds \<lparr>ok = False, status = 404, json = None\<rparr>"
    by (simp_all add: not_found_env_def)
  from fetchCountries_failure_demo [of rejecting_env initial_state] h
       fetchCountries_failure_demo [of not_found_env initial_state] k
  show ?thesis by simp
qed

lemma fetchSlots_cached:
  "map_of (slotsByCountry s) c \<noteq> None \<Longrightarrow> fetchSlotsForCountry e (Code c) s = ([], s)"
  by (simp add: fetchSlotsForCountry_def has_slot_def)

lemma fetchSlots_v2_cached:
  "map_of (slotsByCountry s) c \<noteq> None \<Longrightarrow>
   snd (fetchSlotsForCountry_v2 e (Code c) s) = s \<and>
   (\<forall>u. HttpGet u \<notin> set (fst (fetchSlotsForCountry_v2 e (Code c) s)))"
  by (simp add: fetchSlotsForCountry_v2_def has_slot_def)

text \<open>
  C5. For a country code that already has an entry in \<open>slotsByCountry\<close>, and for an empty
  code (\<^verbatim>\<open>undefined\<close>, \<^verbatim>\<open>null\<close> or \<^verbatim>\<open>""\<close>), \<^verbatim>\<open>fetchSlotsForCountry\<close> issues no request and
  leaves the whole state as it was.
\<close>

theorem fetchSlots_skips_cached_or_empty:
  assumes "arg = CodeUndefined \<or> arg = CodeNull \<or> arg = Code [] \<or>
           (\<exists>c. arg = Code c \<and> map_of (slotsByCountry s) c \<noteq> None)"
  shows "fetchSlotsForCountry e arg s = ([], s) \<and>
         snd (fetchSlotsForCountry_v2 e arg s) = s \<and>
         (\<forall>u. HttpGet u \<notin> set (fst (fetchSlotsForCountry_v2 e arg s)))"
proof -
  from assms consider "arg = CodeUndefined" | "arg = CodeNull" | "arg = Code []"
    | c where "arg = Code c" "map_of (slotsByCountry s) c \<noteq> None"
    by blast
  then show ?thesis
  proof cases
    case 4
    then show ?thesis
      using fetchSlots_cached [of s c e] fetchSlots_v2_cached [of s c e] by simp
  qed (simp_all add: fetchSlotsForCountry_def fetchSlotsForCountry_v2_def)
qed

theorem fetchSlots_skips_cached_or_empty_witness:
  "map_of (slotsByCountry (initial_state\<lparr>slotsByCountry := [(''FR'', empty_summary)]\<rparr>)) ''FR''
     \<noteq> None \<and>
   fetchSlotsForCountry rejecting_env (Code ''FR'')
       (initial_state\<lparr>slotsByCountry := [(''FR'', empty_summary)]\<rparr>) =
     ([], initial_state\<lparr>slotsByCountry := [(''FR'', empty_summary)]\<rparr>) \<and>
   fetchSlotsForCountry_v2 rejecting_env (Code ''FR'')
       (initial_state\<lparr>slotsByCountry := [(''FR'', empty_summary)]\<rparr>) =
     ([Console Debug ''slots cached for'' [Val (JStr ''FR'')]],
      initial_state\<lparr>slotsByCountry := [(''FR'', empty_summary)]\<rparr>) \<and>
   fetchSlotsForCountry rejecting_env CodeNull initial_state = ([], initial_state)"
proof -
  let ?s = "initial_state\<lparr>slotsByCountry := [(''FR'', empty_summary)]\<rparr>"
  have h: "map_of (slotsByCountry ?s) ''FR'' \<noteq> None"
    by simp
  have v2: "fst (fetchSlotsForCountry_v2 rejecting_env (Code ''FR'') ?s) =
              [Console Debug ''slots cached for'' [Val (JStr ''FR'')]]"
    by (simp add: fetchSlotsForCountry_v2_def has_slot_def initial_state_def)
  from fetchSlots_skips_cached_or_empty [of "Code ''FR''" ?s rejecting_env] h
       fetchSlots_skips_cached_or_empty [of CodeNull initial_state rejecting_env] v2
  show ?thesis by (simp add: prod_eq_iff)
qed

lemma map_of_set_slot: "map_of (slotsByCountry (set_slot c v s)) c = Some v"
  by (simp add: set_slot_def update_conv')

lemma error_set_slot: "error (set_slot c v s) = error s"
  by (simp add: set_slot_def)

lemma slots_fail_A:
  assumes "c \<noteq> []" "\<not> has_slot (slotsByCountry s) c" "\<not> offlineMode s" "fetch_defined e"
    and "fetch e (slots_url c) = Rejects \<or> (\<exists>r. fetch e (slots_url c) = Responds r \<and> \<not> ok r)"
  shows "map_of (slotsByCountry (snd (fetchSlotsForCountry e (Code c) s))) c =
           Some (demo_or_fallback DEMO_SLOTS c ''No slots available or API unreachable.'') \<and>
         error (snd (fetchSlotsForCountry e (Code c) s)) =
           Some (''Could not reach Atlys slots API for '' @ c @ ''.'')"
  using assms
  by (auto simp: fetchSlotsForCountry_def fetchSlots_try_def map_of_set_slot error_set_slot)

lemma slots_throw_A:
  assumes "c \<noteq> []" "\<not> has_slot (slotsByCountry s) c" "\<not> offlineMode s" "fetch_defined e"
    and "fetch e (slots_url c) = Responds r" "ok r" "json r = Some d"
    and "extractSummaryFromSlotsData d = Inl err"
  shows "map_of (slotsByCountry (snd (fetchSlotsForCountry e (Code c) s))) c =
           Some (demo_or_fallback DEMO_SLOTS c ''No slots available or API unreachable.'') \<and>
         error (snd (fetchSlotsForCountry e (Code c) s)) =
           Some (''Could not reach Atlys slots API for '' @ c @ ''.'')"
  using assms
  by (simp add: fetchSlotsForCountry_def fetchSlots_try_def map_of_set_slot error_set_slot)

lemma slots_fail_B:
  assumes "c \<noteq> []" "\<not> has_slot (slotsByCountry s) c" "\<not> offlineMode s" "fetch_defined e"
    and "loadingSlots s \<noteq> c"
    and "fetch e (slots_url c) = Rejects \<or> (\<exists>r. fetch e (slots_url c) = Responds r \<and> \<not> ok r)"
  shows "map_of (slotsByCountry (snd (fetchSlotsForCountry_v2 e (Code c) s))) c =
           Some (demo_or_fallback DEMO_SLOTS_v2 c ''No slots available or API unreachable.'') \<and>
         error (snd (fetchSlotsForCountry_v2 e (Code c) s)) =
           Some (''Could not reach Atlys slots API for '' @ c @ ''.'')"
  using assms
  by (auto simp: fetchSlotsForCountry_v2_def fetchSlots_try_v2_def map_of_set_slot error_set_slot)

lemma slots_unparsable_A:
  assumes "c \<noteq> []" "\<not> has_slot (slotsByCountry s) c" "\<not> offlineMode s" "fetch_defined e"
    and "fetch e (slots_url c) = Responds r" "ok r" "json r = None"
  shows "map_of (slotsByCountry (snd (fetchSlotsForCountry e (Code c) s))) c =
           Some (empty_summary\<lparr>slot_raw := Null\<rparr>) \<and>
         error (snd (fetchSlotsForCountry e (Code c) s)) = None"
  using assms
  by (simp add: fetchSlotsForCountry_def fetchSlots_try_def extract_Null map_of_set_slot
        error_set_slot)

lemma slots_unparsable_B:
  assumes "c \<noteq> []" "\<not> has_slot (slotsByCountry s) c" "\<not> offlineMode s" "fetch_defined e"
    and "loadingSlots s \<noteq> c"
    and "fetch e (slots_url c) = Responds r" "ok r" "json r = None"
  shows "map_of (slotsByCountry (snd (fetchSlotsForCountry_v2 e (Code c) s))) c =
           Some (empty_summary\<lparr>slot_raw := Null\<rparr>) \<and>
         error (snd (fetchSlotsForCountry_v2 e (Code c) s)) = None"
  using assms
  by (simp add: fetchSlotsForCountry_v2_def fetchSlots_try_v2_def extract_v2_Null map_of_set_slot
        error_set_slot)

lemma initial_fetch_FR:
  "''FR'' \<noteq> []" "\<not> has_slot (slotsByCountry initial_state) ''FR''" "\<not> offlineMode initial_state"
  "loadingSlots initial_state \<noteq> ''FR''"
  by (simp_all add: initial_state_def has_slot_def object_prototype_keys_def)

text \<open>
  C1, as stated, fails: a response with an OK status whose body does not parse as JSON is
  not replaced by demo data. For "FR", which has a \<^verbatim>\<open>DEMO_SLOTS\<close> entry, the entry stored
  is not that one, and no error string is set.
\<close>

theorem unparsable_slots_body_not_demo:
  "map_of (slotsByCountry (snd (fetchSlotsForCountry unparsable_env (Code ''FR'') initial_state)))
       ''FR'' \<noteq> map_of DEMO_SLOTS ''FR'' \<and>
   error (snd (fetchSlotsForCountry unparsable_env (Code ''FR'') initial_state)) = None \<and>
   map_of (slotsByCountry (snd (fetchSlotsForCountry_v2 unparsable_env (Code ''FR'') initial_state)))
       ''FR'' \<noteq> map_of DEMO_SLOTS_v2 ''FR'' \<and>
   error (snd (fetchSlotsForCountry_v2 unparsable_env (Code ''FR'') initial_state)) = None"
proof -
  have e: "fetch_defined unparsable_env"
    "fetch unparsable_env (slots_url ''FR'') = Responds \<lparr>ok = True, status = 200, json = None\<rparr>"
    by (simp_all add: unparsable_env_def)
  have a: "map_of (slotsByCountry (snd (fetchSlotsForCountry unparsable_env (Code ''FR'')
              initial_state))) ''FR'' = Some (empty_summary\<lparr>slot_raw := Null\<rparr>) \<and>
           error (snd (fetchSlotsForCountry unparsable_env (Code ''FR'') initial_state)) = None"
    by (rule slots_unparsable_A [OF initial_fetch_FR(1-3) e]) simp_all
  have b: "map_of (slotsByCountry (snd (fetchSlotsForCountry_v2 unparsable_env (Code ''FR'')
              initial_state))) ''FR'' = Some (empty_summary\<lparr>slot_raw := Null\<rparr>) \<and>
           error (snd (fetchSlotsForCountry_v2 unparsable_env (Code ''FR'') initial_state)) = None"
    by (rule slots_unparsable_B [OF initial_fetch_FR(1-3) e(1) initial_fetch_FR(4) e(2)]) simp_all
  have c: "map_of DEMO_SLOTS ''FR'' \<noteq> Some (empty_summary\<lparr>slot_raw := Null\<rparr>)"
    "map_of DEMO_SLOTS_v2 ''FR'' \<noteq> Some (empty_summary\<lparr>slot_raw := Null\<rparr>)"
    by (simp_all add: DEMO_SLOTS_def DEMO_SLOTS_v2_def demo_slot_def empty_summary_def)
  from a b c show ?thesis by simp
qed

text \<open>
  C1, amended. For a slots fetch (a non-empty code with no entry, online), a rejected
  request, a status that is not OK, or (in src/src/SchengenAppointmentChecker.tsx) an
  exception thrown while the summary is extracted is caught: the entry stored for the
  country is its \<^verbatim>\<open>DEMO_SLOTS\<close> entry when there is one, else the fallback record, and the
  advisory error string is set. A body that does not parse as JSON is read as \<^verbatim>\<open>null\<close>:
  the entry stored is the empty summary with \<^verbatim>\<open>raw: null\<close>, and no error string is set.
\<close>

theorem fetchSlots_failure_demo:
  assumes "c \<noteq> []" "\<not> has_slot (slotsByCountry s) c" "\<not> offlineMode s" "fetch_defined e"
  shows
    "((fetch e (slots_url c) = Rejects \<or> (\<exists>r. fetch e (slots_url c) = Responds r \<and> \<not> ok r) \<or>
       (\<exists>r d err. fetch e (slots_url c) = Responds r \<and> ok r \<and> json r = Some d \<and>
                  extractSummaryFromSlotsData d = Inl err)) \<longrightarrow>
        map_of (slotsByCountry (snd (fetchSlotsForCountry e (Code c) s))) c =
          Some (demo_or_fallback DEMO_SLOTS c ''No slots available or API unreachable.'') \<and>
        error (snd (fetchSlotsForCountry e (Code c) s)) =
          Some (''Could not reach Atlys slots API for '' @ c @ ''.'')) \<and>
     ((fetch e (slots_url c) = Rejects \<or> (\<exists>r. fetch e (slots_url c) = Responds r \<and> \<not> ok r)) \<and>
      loadingSlots s \<noteq> c \<longrightarrow>
        map_of (slotsByCountry (snd (fetchSlotsForCountry_v2 e (Code c) s))) c =
          Some (demo_or_fallback DEMO_SLOTS_v2 c ''No slots available or API unreachable.'') \<and>
        error (snd (fetchSlotsForCountry_v2 e (Code c) s)) =
          Some (''Could not reach Atlys slots API for '' @ c @ ''.'')) \<and>
     ((\<exists>r. fetch e (slots_url c) = Responds r \<and> ok r \<and> json r = None) \<longrightarrow>
        map_of (slotsByCountry (snd (fetchSlotsForCountry e (Code c) s))) c =
          Some (empty_summary\<lparr>slot_raw := Null\<rparr>) \<and>
        error (snd (fetchSlotsForCountry e (Code c) s)) = None \<and>
        (loadingSlots s \<noteq> c \<longrightarrow>
           map_of (slotsByCountry (snd (fetchSlotsForCountry_v2 e (Code c) s))) c =
             Some (empty_summary\<lparr>slot_raw := Null\<rparr>) \<and>
           error (snd (fetchSlotsForCountry_v2 e (Code c) s)) = None))"
proof (intro conjI impI)
  assume "fetch e (slots_url c) = Rejects \<or> (\<exists>r. fetch e (slots_url c) = Responds r \<and> \<not> ok r) \<or>
       (\<exists>r d err. fetch e (slots_url c) = Responds r \<and> ok r \<and> json r = Some d \<and>
                  extractSummaryFromSlotsData d = Inl err)"
  then consider
      "fetch e (slots_url c) = Rejects \<or> (\<exists>r. fetch e (slots_url c) = Responds r \<and> \<not> ok r)"
    | r d err where "fetch e (slots_url c) = Responds r" "ok r" "json r = Some d"
        "extractSummaryFromSlotsData d = Inl err"
    by blast
  then have both: "map_of (slotsByCountry (snd (fetchSlotsForCountry e (Code c) s))) c =
          Some (demo_or_fallback DEMO_SLOTS c ''No slots available or API unreachable.'') \<and>
        error (snd (fetchSlotsForCountry e (Code c) s)) =
          Some (''Could not reach Atlys slots API for '' @ c @ ''.'')"
  proof cases
    case 1
    then show ?thesis by (rule slots_fail_A [OF assms])
  next
    case 2
    then show ?thesis by (rule slots_throw_A [OF assms])
  qed
  from both show "map_of (slotsByCountry (snd (fetchSlotsForCountry e (Code c) s))) c =
          Some (demo_or_fallback DEMO_SLOTS c ''No slots available or API unreachable.'')" ..
  from both show "error (snd (fetchSlotsForCountry e (Code c) s)) =
          Some (''Could not reach Atlys slots API for '' @ c @ ''.'')" ..
next
  assume h: "(fetch e (slots_url c) = Rejects \<or>
              (\<exists>r. fetch e (slots_url c) = Responds r \<and> \<not> ok r)) \<and> loadingSlots s \<noteq> c"
  then have both: "map_of (slotsByCountry (snd (fetchSlotsForCountry_v2 e (Code c) s))) c =
          Some (demo_or_fallback DEMO_SLOTS_v2 c ''No slots available or API unreachable.'') \<and>
        error (snd (fetchSlotsForCountry_v2 e (Code c) s)) =
          Some (''Could not reach Atlys slots API for '' @ c @ ''.'')"
    using slots_fail_B [OF assms] by blast
  from both show "map_of (slotsByCountry (snd (fetchSlotsForCountry_v2 e (Code c) s))) c =
          Some (demo_or_fallback DEMO_SLOTS_v2 c ''No slots available or API unreachable.'')" ..
  from both show "error (snd (fetchSlotsForCountry_v2 e (Code c) s)) =
          Some (''Could not reach Atlys slots API for '' @ c @ ''.'')" ..
next
  assume "\<exists>r. fetch e (slots_url c) = Responds r \<and> ok r \<and> json r = None"
  then obtain r where r: "fetch e (slots_url c) = Responds r" "ok r" "json r = None"
    by blast
  note a = slots_unparsable_A [OF assms r]
  from a show "map_of (slotsByCountry (snd (fetchSlotsForCountry e (Code c) s))) c =
          Some (empty_summary\<lparr>slot_raw := Null\<rparr>)" ..
  from a show "error (snd (fetchSlotsForCountry e (Code c) s)) = None" ..
  assume l: "loadingSlots s \<noteq> c"
  note b = slots_unparsable_B [OF assms l r]
  from b show "map_of (slotsByCountry (snd (fetchSlotsForCountry_v2 e (Code c) s))) c =
             Some (empty_summary\<lparr>slot_raw := Null\<rparr>)" ..
  from b show "error (snd (fetchSlotsForCountry_v2 e (Code c) s)) = None" ..
qed

theorem fetchSlots_failure_demo_witness:
  "''FR'' \<noteq> [] \<and> \<not> has_slot (slotsByCountry initial_state) ''FR'' \<and>
   \<not> offlineMode initial_state \<and> fetch_defined rejecting_env \<and>
   fetch rejecting_env (slots_url ''FR'') = Rejects \<and> loadingSlots initial_state \<noteq> ''FR'' \<and>
   map_of (slotsByCountry (snd (fetchSlotsForCountry rejecting_env (Code ''FR'') initial_state)))
     ''FR'' = map_of DEMO_SLOTS ''FR'' \<and>
   error (snd (fetchSlotsForCountry rejecting_env (Code ''FR'') initial_state)) =
     Some ''Could not reach Atlys slots API for FR.'' \<and>
   map_of (slotsByCountry (snd (fetchSlotsForCountry_v2 rejecting_env (Code ''FR'') initial_state)))
     ''FR'' = map_of DEMO_SLOTS_v2 ''FR'' \<and>
   error (snd (fetchSlotsForCountry_v2 rejecting_env (Code ''FR'') initial_state)) =
     Some ''Could not reach Atlys slots API for FR.'' \<and>
   map_of (slotsByCountry (snd (fetchSlotsForCountry not_found_env (Code ''DE'') initial_state)))
     ''DE'' =
       Some \<lparr>nextDate = Null, isAvailable = False, cities = [],
             slot_raw = JObj [(''note'', JStr ''No slots available or API unreachable.'')]\<rparr> \<and>
   error (snd (fetchSlotsForCountry_v2 not_found_env (Code ''DE'') initial_state)) =
     Some ''Could not reach Atlys slots API for DE.'' \<and>
   extractSummaryFromSlotsData (JObj [(''centre_dates'', JArr [Null])]) = Inl TypeError \<and>
   map_of (slotsByCountry (snd (fetchSlotsForCountry null_centre_env (Code ''FR'') initial_state)))
     ''FR'' = map_of DEMO_SLOTS ''FR'' \<and>
   map_of (slotsByCountry (snd (fetchSlotsForCountry unparsable_env (Code ''DE'') initial_state)))
     ''DE'' = Some (empty_summary\<lparr>slot_raw := Null\<rparr>) \<and>
   error (snd (fetchSlotsForCountry_v2 unparsable_env (Code ''DE'') initial_state)) = None"
proof -
  have e: "fetch_defined rejecting_env" "fetch rejecting_env (slots_url ''FR'') = Rejects"
    by (simp_all add: rejecting_env_def)
  have n: "fetch_defined not_found_env"
    "fetch not_found_env (slots_url ''DE'') = Responds \<lparr>ok = False, status = 404, json = None\<rparr>"
    by (simp_all add: not_found_env_def)
  have t: "fetch_defined null_centre_env"
    "fetch null_centre_env (slots_url ''FR'') =
       Responds \<lparr>ok = True, status = 200, json = Some (JObj [(''centre_dates'', JArr [Null])])\<rparr>"
    "extractSummaryFromSlotsData (JObj [(''centre_dates'', JArr [Null])]) = Inl TypeError"
    by (simp_all add: null_centre_env_def extractSummaryFromSlotsData_def city_of_def)
  have u: "fetch_defined unparsable_env"
    "fetch unparsable_env (slots_url ''DE'') = Responds \<lparr>ok = True, status = 200, json = None\<rparr>"
    by (simp_all add: unparsable_env_def)
  have i: "''DE'' \<noteq> []" "\<not> has_slot (slotsByCountry initial_state) ''DE''"
    "loadingSlots initial_state \<noteq> ''DE''"
    by (simp_all add: initial_state_def has_slot_def object_prototype_keys_def)
  have d: "demo_or_fallback DEMO_SLOTS ''FR'' m = the (map_of DEMO_SLOTS ''FR'')"
    "demo_or_fallback DEMO_SLOTS_v2 ''FR'' m = the (map_of DEMO_SLOTS_v2 ''FR'')"
    "map_of DEMO_SLOTS ''FR'' \<noteq> None" "map_of DEMO_SLOTS_v2 ''FR'' \<noteq> None"
    "demo_or_fallback DEMO_SLOTS ''DE'' m =
       \<lparr>nextDate = Null, isAvailable = False, cities = [], slot_raw = JObj [(''note'', JStr m)]\<rparr>"
    for m
    by (simp_all add: demo_or_fallback_def DEMO_SLOTS_def DEMO_SLOTS_v2_def)
  from fetchSlots_failure_demo [OF initial_fetch_FR(1-3) e(1)]
       fetchSlots_failure_demo [OF i(1,2) initial_fetch_FR(3) n(1)]
       fetchSlots_failure_demo [OF initial_fetch_FR(1-3) t(1)]
       fetchSlots_failure_demo [OF i(1,2) initial_fetch_FR(3) u(1)]
       e n t u i initial_fetch_FR d
  show ?thesis by auto
qed

section \<open>Properties of the search\<close>

lemma str_includes_sublist: "str_includes s t = sublist t s"
  by (induction s) (auto simp: sublist_Cons_right)

lemma sublist_map_iff:
  "sublist (map f q) (map f s) \<longleftrightarrow> (\<exists>pre mid post. s = pre @ mid @ post \<and> map f mid = map f q)"
proof
  assume "sublist (map f q) (map f s)"
  then obtain ps ss where "map f s = ps @ map f q @ ss"
    by (auto simp: sublist_def)
  then obtain pre rest where s: "s = pre @ rest" and r: "map f q @ ss = map f rest"
    by (auto simp: map_eq_append_conv)
  from r obtain mid post where "rest = mid @ post" "map f mid = map f q"
    by (auto simp: append_eq_map_conv)
  with s show "\<exists>pre mid post. s = pre @ mid @ post \<and> map f mid = map f q"
    by blast
next
  assume "\<exists>pre mid post. s = pre @ mid @ post \<and> map f mid = map f q"
  then obtain pre mid post where "s = pre @ mid @ post" "map f mid = map f q"
    by blast
  then have "map f s = map f pre @ map f q @ map f post"
    by simp
  then show "sublist (map f q) (map f s)"
    unfolding sublist_def by blast
qed

lemma includes_lower_iff:
  "str_includes (toLowerCase s) (toLowerCase q) = contains_case_insensitive s q"
  unfolding str_includes_sublist contains_case_insensitive_def toLowerCase_def
  by (rule sublist_map_iff)

lemma lowered_string: "isString v \<Longrightarrow> lowered v = Inr (toLowerCase (str_of v))"
  by (cases v) (auto simp: lowered_def)

lemma search_match_strings:
  assumes "isString (name c)" "isString (code c)"
  shows "search_match (toLowerCase q) c =
           Inr (contains_case_insensitive (str_of (name c)) q \<or>
                contains_case_insensitive (str_of (code c)) q)"
  using assms by (simp add: search_match_def lowered_string includes_lower_iff)

lemma filter_throwing_total:
  assumes "\<forall>x \<in> set xs. p x = Inr (P x)"
  shows "filter_throwing p xs = Inr (filter P xs)"
  using assms by (induction xs) auto

lemma numeric_code_countries:
  "countries (snd (fetchCountries numeric_code_env initial_state)) =
     [\<lparr>code = JNum 33, name = JStr ''France'',
       country_raw = JObj [(''code'', JNum 33), (''name'', JStr ''France'')],
       availableSummary = Null\<rparr>,
      \<lparr>code = JStr ''DE'', name = JStr ''Germany'',
       country_raw = JObj [(''code'', JStr ''DE''), (''name'', JStr ''Germany'')],
       availableSummary = Null\<rparr>]"
  "filtered (snd (fetchCountries numeric_code_env initial_state)) =
     countries (snd (fetchCountries numeric_code_env initial_state))"
  by (simp_all add: fetchCountries_def fetchCountries_try_def numeric_code_env_def
        country_list_def map_country_def)

lemma lowered_France: "lowered (JStr ''France'') = Inr ''france''"
  by code_simp

lemma lowered_ger: "toLowerCase ''ger'' = ''ger''"
  by code_simp

lemma lowered_number: "lowered (JNum 33) = Inl TypeError"
  by (simp add: lowered_def)

text \<open>
  C4, as stated, fails: the list that \<^verbatim>\<open>fetchCountries\<close> stores for the response
  \<^verbatim>\<open>[{code: 33, name: "France"}, {code: "DE", name: "Germany"}]\<close> is a country list on which
  \<^verbatim>\<open>onSearch("ger")\<close> throws a TypeError at the numeric code, so the filtered list stays
  the full list, France included, instead of becoming the countries that contain "ger".
\<close>

theorem onSearch_numeric_code_throws:
  "snd (onSearch ''ger'' (snd (fetchCountries numeric_code_env initial_state))) = Some TypeError \<and>
   map name (filtered (fst (onSearch ''ger''
      (snd (fetchCountries numeric_code_env initial_state))))) =
     [JStr ''France'', JStr ''Germany'']"
proof -
  let ?s = "snd (fetchCountries numeric_code_env initial_state)"
  have m: "search_match ''ger''
             \<lparr>code = JNum 33, name = JStr ''France'',
              country_raw = JObj [(''code'', JNum 33), (''name'', JStr ''France'')],
              availableSummary = Null\<rparr> = Inl TypeError"
    by (simp add: search_match_def lowered_France lowered_number)
  have run: "onSearch ''ger'' ?s = (?s\<lparr>query := ''ger''\<rparr>, Some TypeError)"
    by (simp add: onSearch_def lowered_ger numeric_code_countries(1) m)
  show ?thesis
    unfolding run by (simp add: numeric_code_countries)
qed

text \<open>
  C4, amended. For every query \<open>q\<close> and every list of countries whose names and codes
  are strings (as \<^verbatim>\<open>type Country\<close> declares them; strings of code units up to U+00FF),
  \<^verbatim>\<open>onSearch\<close> sets the filtered list to exactly the countries whose name or code
  contains \<open>q\<close> as a case-insensitive substring; for the empty query the filtered list
  is the full list, whatever the countries hold.
\<close>

theorem onSearch_filters_by_substring:
  "(q = [] \<longrightarrow> onSearch q s = (s\<lparr>query := q, filtered := countries s\<rparr>, None)) \<and>
   ((\<forall>c \<in> set (countries s). isString (name c) \<and> isString (code c)) \<longrightarrow>
      onSearch q s =
        (s\<lparr>query := q,
           filtered := filter (\<lambda>c. contains_case_insensitive (str_of (name c)) q \<or>
                                  contains_case_insensitive (str_of (code c)) q) (countries s)\<rparr>,
         None))"
proof (intro conjI impI)
  assume "q = []"
  then show "onSearch q s = (s\<lparr>query := q, filtered := countries s\<rparr>, None)"
    by (simp add: onSearch_def)
next
  let ?P = "\<lambda>c. contains_case_insensitive (str_of (name c)) q \<or>
                 contains_case_insensitive (str_of (code c)) q"
  assume typed: "\<forall>c \<in> set (countries s). isString (name c) \<and> isString (code c)"
  then have run: "filter_throwing (search_match (toLowerCase q)) (countries s) =
                    Inr (filter ?P (countries s))"
    by (intro filter_throwing_total) (simp add: search_match_strings)
  show "onSearch q s = (s\<lparr>query := q, filtered := filter ?P (countries s)\<rparr>, None)"
  proof (cases "q = []")
    case True
    have all: "?P c" for c
      unfolding contains_case_insensitive_def True
      by (intro disjI1 exI [of _ "[]"] exI [of _ "str_of (name c)"]) simp
    have "filter ?P (countries s) = countries s"
      by (rule filter_True) (use all in blast)
    with True show ?thesis by (simp add: onSearch_def)
  next
    case False
    with run show ?thesis by (simp add: onSearch_def)
  qed
qed

theorem onSearch_filters_by_substring_witness:
  "list_all (\<lambda>c. isString (name c) \<and> isString (code c)) DEMO_COUNTRIES \<and>
   onSearch ''fr'' (initial_state\<lparr>countries := DEMO_COUNTRIES\<rparr>) =
     (initial_state\<lparr>countries := DEMO_COUNTRIES, query := ''fr'',
                    filtered := [demo_country ''FR'' ''France'']\<rparr>, None) \<and>
   onSearch [] (initial_state\<lparr>countries := DEMO_COUNTRIES\<rparr>) =
     (initial_state\<lparr>countries := DEMO_COUNTRIES, query := [], filtered := DEMO_COUNTRIES\<rparr>, None)"
proof -
  let ?s = "initial_state\<lparr>countries := DEMO_COUNTRIES\<rparr>"
  have typed: "\<forall>c \<in> set (countries ?s). isString (name c) \<and> isString (code c)"
    by (simp add: DEMO_COUNTRIES_def demo_country_def)
  have sel: "filter (\<lambda>c. contains_case_insensitive (str_of (name c)) ''fr'' \<or>
                        contains_case_insensitive (str_of (code c)) ''fr'') DEMO_COUNTRIES =
             [demo_country ''FR'' ''France'']"
    unfolding includes_lower_iff [symmetric]
    by code_simp
  from onSearch_filters_by_substring [of "''fr''" ?s] typed sel
       onSearch_filters_by_substring [of "[]" ?s]
  show ?thesis by (simp add: DEMO_COUNTRIES_def demo_country_def list_all_iff)
qed

section \<open>Properties of the slots request\<close>

lemma hex_digit_unreserved: "uri_unreserved (hex_digit n)"
proof -
  have "n mod 16 < length ''0123456789ABCDEF''"
    by simp
  then have "hex_digit n \<in> set ''0123456789ABCDEF''"
    unfolding hex_digit_def by (rule nth_mem)
  then show ?thesis
    by (auto simp: uri_unreserved_def)
qed

lemma percent_byte_chars: "ch \<in> set (percent_byte n) \<Longrightarrow> uri_unreserved ch \<or> ch = CHR ''%''"
  by (auto simp: percent_byte_def hex_digit_unreserved)

lemma encode_char_chars: "ch \<in> set (encode_char c) \<Longrightarrow> uri_unreserved ch \<or> ch = CHR ''%''"
  by (auto simp: encode_char_def Let_def dest: percent_byte_chars split: if_splits)

lemma encodeURIComponent_chars:
  "ch \<in> set (encodeURIComponent c) \<Longrightarrow> uri_unreserved ch \<or> ch = CHR ''%''"
  by (auto simp: encodeURIComponent_def dest: encode_char_chars)

lemma encoded_no_question: "ch \<in> set (encodeURIComponent c) \<Longrightarrow> ch \<noteq> CHR ''?''"
  by (auto dest!: encodeURIComponent_chars simp: uri_unreserved_def)

lemma slots_url_path:
  "url_path_part (slots_url c) =
     ''https://api.atlys.com/api/v2/application/slots/'' @ encodeURIComponent c"
proof -
  have "takeWhile (\<lambda>x. x \<noteq> CHR ''?'') (encodeURIComponent c @ CHR ''?'' # rest) =
          encodeURIComponent c" for rest
    by (simp add: takeWhile_append2 encoded_no_question)
  then show ?thesis
    by (simp add: url_path_part_def slots_url_def)
qed

lemma slots_url_query:
  "url_query_part (slots_url c) =
     ''residence=IN&citizenship=IN&purpose=atlys_black&travellersCount=1&withAllSlots=true&getCitiesWiseSlots=true''"
proof -
  have "dropWhile (\<lambda>x. x \<noteq> CHR ''?'') (encodeURIComponent c @ CHR ''?'' # rest) =
          CHR ''?'' # rest" for rest
    by (simp add: dropWhile_append2 encoded_no_question)
  then show ?thesis
    by (simp add: url_query_part_def slots_url_def residence_def citizenship_def)
qed

lemma slots_url_params:
  "query_param_names (slots_url c) =
     [''residence'', ''citizenship'', ''purpose'', ''travellersCount'', ''withAllSlots'',
      ''getCitiesWiseSlots'']"
  unfolding query_param_names_def slots_url_query by simp

lemma fetchSlots_requests:
  "HttpGet u \<in> set (fst (fetchSlotsForCountry e (Code c) s)) \<Longrightarrow> u = slots_url c"
  by (auto simp: fetchSlotsForCountry_def fetchSlots_try_def Let_def
           split: if_splits fetch_outcome.splits option.splits sum.splits)

lemma fetchSlots_v2_requests:
  "HttpGet u \<in> set (fst (fetchSlotsForCountry_v2 e (Code c) s)) \<Longrightarrow> u = slots_url c"
  by (auto simp: fetchSlotsForCountry_v2_def fetchSlots_try_v2_def Let_def
           split: if_splits fetch_outcome.splits option.splits sum.splits)

lemma fetchSlots_request_issued:
  "c \<noteq> [] \<Longrightarrow> \<not> has_slot (slotsByCountry s) c \<Longrightarrow> \<not> offlineMode s \<Longrightarrow> fetch_defined e \<Longrightarrow>
   HttpGet (slots_url c) \<in> set (fst (fetchSlotsForCountry e (Code c) s))"
  by (auto simp: fetchSlotsForCountry_def fetchSlots_try_def Let_def
           split: if_splits fetch_outcome.splits option.splits sum.splits)

lemma fetchSlots_v2_request_issued:
  "c \<noteq> [] \<Longrightarrow> \<not> has_slot (slotsByCountry s) c \<Longrightarrow> \<not> offlineMode s \<Longrightarrow> fetch_defined e \<Longrightarrow>
   loadingSlots s \<noteq> c \<Longrightarrow>
   HttpGet (slots_url c) \<in> set (fst (fetchSlotsForCountry_v2 e (Code c) s))"
  by (auto simp: fetchSlotsForCountry_v2_def fetchSlots_try_v2_def Let_def
           split: if_splits fetch_outcome.splits option.splits sum.splits)

text \<open>
  C7. For a non-empty country code, every request \<^verbatim>\<open>fetchSlotsForCountry\<close> issues is a GET
  of \<open>slots_url\<close>, and it issues one when the code has no entry and the component is
  online. The part of that URL before the query ends in \<^verbatim>\<open>/application/slots/\<close> followed by
  the encoded code, which consists of unreserved characters and percent-escapes only, and
  the query has exactly the parameters \<^verbatim>\<open>residence\<close>, \<^verbatim>\<open>citizenship\<close>, \<^verbatim>\<open>purpose\<close>,
  \<^verbatim>\<open>travellersCount\<close>, \<^verbatim>\<open>withAllSlots\<close> and \<^verbatim>\<open>getCitiesWiseSlots\<close>.
\<close>

theorem slots_request_url:
  assumes "c \<noteq> []"
  shows "(\<forall>u. HttpGet u \<in> set (fst (fetchSlotsForCountry e (Code c) s)) \<longrightarrow> u = slots_url c) \<and>
         (\<forall>u. HttpGet u \<in> set (fst (fetchSlotsForCountry_v2 e (Code c) s)) \<longrightarrow> u = slots_url c) \<and>
         (\<not> has_slot (slotsByCountry s) c \<and> \<not> offlineMode s \<and> fetch_defined e \<longrightarrow>
            HttpGet (slots_url c) \<in> set (fst (fetchSlotsForCountry e (Code c) s)) \<and>
            (loadingSlots s \<noteq> c \<longrightarrow>
               HttpGet (slots_url c) \<in> set (fst (fetchSlotsForCountry_v2 e (Code c) s)))) \<and>
         url_path_part (slots_url c) =
           ''https://api.atlys.com/api/v2/application/slots/'' @ encodeURIComponent c \<and>
         (\<forall>ch \<in> set (encodeURIComponent c). uri_unreserved ch \<or> ch = CHR ''%'') \<and>
         query_param_names (slots_url c) =
           [''residence'', ''citizenship'', ''purpose'', ''travellersCount'', ''withAllSlots'',
            ''getCitiesWiseSlots'']"
  using assms fetchSlots_requests [of _ e c s] fetchSlots_v2_requests [of _ e c s]
    fetchSlots_request_issued [of c s e] fetchSlots_v2_request_issued [of c s e]
    encodeURIComponent_chars [of _ c]
  by (simp add: slots_url_path slots_url_params)

theorem slots_request_url_witness:
  "''FR'' \<noteq> [] \<and>
   fst (fetchSlotsForCountry rejecting_env (Code ''FR'') initial_state) =
     [HttpGet ''https://api.atlys.com/api/v2/application/slots/FR?residence=IN&citizenship=IN&purpose=atlys_black&travellersCount=1&withAllSlots=true&getCitiesWiseSlots=true'',
      Console Error ''Slots fetch failed'' [Thrown NetworkError]] \<and>
   HttpGet (slots_url ''FR'') \<in> set (fst (fetchSlotsForCountry_v2 rejecting_env (Code ''FR'')
      initial_state)) \<and>
   url_path_part (slots_url ''a/b'') = ''https://api.atlys.com/api/v2/application/slots/a%2Fb'' \<and>
   query_param_names (slots_url ''a/b'') =
     [''residence'', ''citizenship'', ''purpose'', ''travellersCount'', ''withAllSlots'',
      ''getCitiesWiseSlots'']"
proof -
  have run: "fst (fetchSlotsForCountry rejecting_env (Code ''FR'') initial_state) =
     [HttpGet (slots_url ''FR''), Console Error ''Slots fetch failed'' [Thrown NetworkError]]"
    by (simp add: fetchSlotsForCountry_def fetchSlots_try_def rejecting_env_def initial_state_def
          has_slot_def object_prototype_keys_def)
  have url: "slots_url ''FR'' =
     ''https://api.atlys.com/api/v2/application/slots/FR?residence=IN&citizenship=IN&purpose=atlys_black&travellersCount=1&withAllSlots=true&getCitiesWiseSlots=true''"
    by code_simp
  have enc: "encodeURIComponent ''a/b'' = ''a%2Fb''"
    by code_simp
  have e: "fetch_defined rejecting_env"
    by (simp add: rejecting_env_def)
  from slots_request_url [of "''FR''" rejecting_env initial_state]
       slots_request_url [of "''a/b''" rejecting_env initial_state]
       initial_fetch_FR e run url enc
  show ?thesis by simp
qed

section \<open>Properties of the country mapping\<close>

lemma or_chain_first_truthy: "or_chain (map (get_prop c) keys) d = first_truthy c keys d"
  by (induction keys) (auto simp: first_truthy_def)

lemma map_country_normalized: "\<not> nullish c \<Longrightarrow> map_country c = Inr (normalized_country c)"
  using or_chain_first_truthy [of c code_keys "JStr []"]
        or_chain_first_truthy [of c name_keys "JStr ''Unknown''"]
  by (simp add: map_country_def normalized_country_def code_keys_def name_keys_def)

lemma map_throwing_total:
  assumes "\<forall>x \<in> set xs. f x = Inr (g x)"
  shows "map_throwing f xs = Inr (map g xs)"
  using assms by (induction xs) auto

lemma mapped_countries:
  assumes "\<forall>c \<in> set (country_list d). \<not> nullish c"
  shows "map_throwing map_country (country_list d) = Inr (map normalized_country (country_list d))"
  using assms by (intro map_throwing_total) (simp add: map_country_normalized)

text \<open>
  C8, as stated, fails: a record whose \<^verbatim>\<open>code\<close> field is present with the empty string
  and whose \<^verbatim>\<open>iso2_code\<close> is "FR" is given the code "FR", while the first present of the
  fields is the empty string.
\<close>

theorem present_empty_code_skipped:
  "map code (countries (snd (fetchCountries empty_code_env initial_state))) = [JStr ''FR''] \<and>
   map code (countries (snd (fetchCountries_v2 empty_code_env initial_state))) = [JStr ''FR''] \<and>
   first_present empty_code_record code_keys (JStr []) = JStr []"
  by (simp add: fetchCountries_def fetchCountries_try_def fetchCountries_v2_def
        fetchCountries_try_v2_def empty_code_env_def country_list_def empty_code_record_def
        map_country_def first_present_def code_keys_def)

text \<open>
  C8, amended. For a successful countries response whose list (the payload itself when it
  is an array, else its \<^verbatim>\<open>countries\<close> field, else its \<^verbatim>\<open>data\<close> field) holds no \<^verbatim>\<open>null\<close>,
  each record is mapped to the fixed shape in which \<open>code\<close> is the first truthy of
  \<^verbatim>\<open>code, iso2_code, countryCode, alpha2, iso2, iso, country_code\<close> (else \<^verbatim>\<open>""\<close>) and \<open>name\<close>
  the first truthy of \<^verbatim>\<open>name, countryName, label, title\<close> (else \<^verbatim>\<open>"Unknown"\<close>).
\<close>

theorem fetchCountries_normalizes:
  assumes "fetch_defined e" "fetch e countries_url = Responds r" "ok r" "json r = Some d"
    and "\<forall>c \<in> set (country_list d). \<not> nullish c"
  shows "countries (snd (fetchCountries e s)) = map normalized_country (country_list d) \<and>
         filtered (snd (fetchCountries e s)) = map normalized_country (country_list d) \<and>
         countries (snd (fetchCountries_v2 e s)) = map normalized_country (country_list d) \<and>
         filtered (snd (fetchCountries_v2 e s)) = map normalized_country (country_list d) \<and>
         (isArray d \<longrightarrow> country_list d = elems d) \<and>
         (\<not> isArray d \<and> isArray (get_prop d ''countries'') \<longrightarrow>
            country_list d = elems (get_prop d ''countries'')) \<and>
         (\<not> isArray d \<and> \<not> isArray (get_prop d ''countries'') \<and> isArray (get_prop d ''data'') \<longrightarrow>
            country_list d = elems (get_prop d ''data''))"
proof -
  note m = mapped_countries [OF assms(5)]
  have a: "countries (snd (fetchCountries e s)) = map normalized_country (country_list d) \<and>
         filtered (snd (fetchCountries e s)) = map normalized_country (country_list d)"
    using assms(1-4) m by (simp add: fetchCountries_def fetchCountries_try_def)
  have b: "countries (snd (fetchCountries_v2 e s)) = map normalized_country (country_list d) \<and>
         filtered (snd (fetchCountries_v2 e s)) = map normalized_country (country_list d)"
    using assms(1-4) m by (simp add: fetchCountries_v2_def fetchCountries_try_v2_def)
  have c: "(isArray d \<longrightarrow> country_list d = elems d) \<and>
         (\<not> isArray d \<and> isArray (get_prop d ''countries'') \<longrightarrow>
            country_list d = elems (get_prop d ''countries'')) \<and>
         (\<not> isArray d \<and> \<not> isArray (get_prop d ''countries'') \<and> isArray (get_prop d ''data'') \<longrightarrow>
            country_list d = elems (get_prop d ''data''))"
    by (cases d) (auto simp: country_list_def)
  from a b c show ?thesis by blast
qed

theorem fetchCountries_normalizes_witness:
  "fetch_defined empty_code_env \<and>
   fetch empty_code_env countries_url =
     Responds \<lparr>ok = True, status = 200,
               json = Some (JObj [(''countries'', JArr [empty_code_record])])\<rparr> \<and>
   country_list (JObj [(''countries'', JArr [empty_code_record])]) = [empty_code_record] \<and>
   \<not> nullish empty_code_record \<and>
   countries (snd (fetchCountries empty_code_env initial_state)) =
     [\<lparr>code = JStr ''FR'', name = JStr ''France'', country_raw = empty_code_record,
       availableSummary = Null\<rparr>] \<and>
   filtered (snd (fetchCountries_v2 empty_code_env initial_state)) =
     [\<lparr>code = JStr ''FR'', name = JStr ''France'', country_raw = empty_code_record,
       availableSummary = Null\<rparr>]"
proof -
  let ?d = "JObj [(''countries'', JArr [empty_code_record])]"
  have e: "fetch_defined empty_code_env"
    "fetch empty_code_env countries_url = Responds \<lparr>ok = True, status = 200, json = Some ?d\<rparr>"
    by (simp_all add: empty_code_env_def)
  have l: "country_list ?d = [empty_code_record]"
    by (simp add: country_list_def)
  have ne: "\<not> nullish empty_code_record"
    by (simp add: empty_code_record_def)
  have n: "\<forall>c \<in> set (country_list ?d). \<not> nullish c"
    unfolding l using ne by simp
  have v: "normalized_country empty_code_record =
     \<lparr>code = JStr ''FR'', name = JStr ''France'', country_raw = empty_code_record,
      availableSummary = Null\<rparr>"
    by (simp add: normalized_country_def first_truthy_def code_keys_def name_keys_def
          empty_code_record_def)
  from fetchCountries_normalizes [OF e(1) e(2) _ _ n, of initial_state] e l n v
  show ?thesis by simp
qed

section \<open>Properties of the booking button\<close>

text \<open>
  C6, as stated, fails: the handler of src/unnamed/part_000 does not only log, it also
  calls \<^verbatim>\<open>alert\<close>.
\<close>

theorem book_onClick_v2_alerts:
  "\<not> list_all is_console
       (fst (book_onClick_v2 (demo_country ''FR'' ''France'') (JStr ''FR'') (Some ahmedabad) Null
               [JStr ''2025-12-15'', JStr ''2025-12-16'', JStr ''2025-12-17''] initial_state))"
  by (simp add: book_onClick_v2_def)

text \<open>
  C6, amended. A click on "Book This Appointment" logs the selected country, the country
  code, the centre and the date to the console and, in src/unnamed/part_000, then shows
  the placeholder alert. It issues no request and leaves the whole state as it was.
\<close>

theorem book_onClick_frame:
  "snd (book_onClick sel amd s) = s \<and>
   fst (book_onClick sel amd s) =
     [Console Log ''Book appointment''
        [Val (JObj [(''country'', name sel), (''countryCode'', getCountryCode sel),
                    (''center'', activeCity_name (activeCity amd)),
                    (''date'', effectiveSelectedDate amd)])]] \<and>
   list_all is_console (fst (book_onClick sel amd s)) \<and>
   snd (book_onClick_v2 sel k city focused dates s) = s \<and>
   fst (book_onClick_v2 sel k city focused dates s) =
     [Console Debug ''Book appointment''
        [Val (JObj [(''country'', name sel), (''countryCode'', k),
                    (''center'', activeCity_name city),
                    (''date'', or_chain [focused] (or_chain [index0 (JArr dates)] Null))])],
      Alert] \<and>
   (\<forall>u. HttpGet u \<notin> set (fst (book_onClick_v2 sel k city focused dates s)))"
  by (simp add: book_onClick_def book_onClick_v2_def)

theorem book_onClick_frame_witness:
  "book_onClick (demo_country ''FR'' ''France'')
      \<lparr>activeCity = Some ahmedabad, effectiveSelectedDate = JStr ''2025-12-15''\<rparr> initial_state =
     ([Console Log ''Book appointment''
         [Val (JObj [(''country'', JStr ''France''), (''countryCode'', JStr ''FR''),
                     (''center'', JStr ''Ahmedabad''), (''date'', JStr ''2025-12-15'')])]],
      initial_state) \<and>
   book_onClick_v2 (demo_country ''FR'' ''France'') (JStr ''FR'') (Some ahmedabad) Null
      [JStr ''2025-12-15'', JStr ''2025-12-16'', JStr ''2025-12-17''] initial_state =
     ([Console Debug ''Book appointment''
         [Val (JObj [(''country'', JStr ''France''), (''countryCode'', JStr ''FR''),
                     (''center'', JStr ''Ahmedabad''), (''date'', JStr ''2025-12-15'')])],
       Alert],
      initial_state)"
proof -
  have v: "name (demo_country ''FR'' ''France'') = JStr ''France''"
    "getCountryCode (demo_country ''FR'' ''France'') = JStr ''FR''"
    "activeCity_name (Some ahmedabad) = JStr ''Ahmedabad''"
    by (simp_all add: demo_country_def getCountryCode_def and_js_def activeCity_name_def
          ahmedabad_def demo_city_def)
  from book_onClick_frame [of "demo_country ''FR'' ''France''"
         "\<lparr>activeCity = Some ahmedabad, effectiveSelectedDate = JStr ''2025-12-15''\<rparr>"
         initial_state "JStr ''FR''" "Some ahmedabad" Null
         "[JStr ''2025-12-15'', JStr ''2025-12-16'', JStr ''2025-12-17'']"] v
  show ?thesis by (simp add: prod_eq_iff)
qed

section \<open>The month grid in a zone ahead of UTC\<close>

lemma fill_weeks_seven:
  assumes "fill_weeks cell days week wks = Inr (wks', week')"
    and "\<forall>w \<in> set wks. length w = 7" and "length week < 7"
  shows "(\<forall>w \<in> set wks'. length w = 7) \<and> length week' < 7"
  using assms
proof (induction days arbitrary: week wks)
  case Nil
  then show ?case by simp
next
  case (Cons day days)
  from Cons.prems(1) obtain d where d: "cell day = Inr d"
    by (cases "cell day") auto
  show ?case
  proof (cases "length (week @ [d]) = 7")
    case True
    with Cons.prems d have run: "fill_weeks cell days [] (wks @ [week @ [d]]) = Inr (wks', week')"
      by simp
    from True Cons.prems(2) have full: "\<forall>w \<in> set (wks @ [week @ [d]]). length w = 7"
      by auto
    show ?thesis
      by (rule Cons.IH [OF run full]) simp
  next
    case False
    with Cons.prems d have run: "fill_weeks cell days (week @ [d]) wks = Inr (wks', week')"
      by simp
    from False Cons.prems(3) have short: "length (week @ [d]) < 7"
      by simp
    show ?thesis
      by (rule Cons.IH [OF run Cons.prems(2) short])
  qed
qed

lemma close_weeks_seven:
  assumes "\<forall>w \<in> set wks. length w = 7" and "length week < 7"
  shows "\<forall>w \<in> set (close_weeks (wks, week)). length w = 7"
  using assms by (auto simp: close_weeks_def)

lemma fill_close_seven:
  assumes "fill_weeks cell days (replicate n []) [] = Inr p" and "n < 7"
  shows "\<forall>w \<in> set (close_weeks p). length w = 7"
proof -
  obtain wks week where p: "p = (wks, week)"
    by (cases p)
  from fill_weeks_seven [OF assms(1) [unfolded p]] assms(2)
  have "(\<forall>w \<in> set wks. length w = 7) \<and> length week < 7"
    by simp
  then show ?thesis
    unfolding p by (intro close_weeks_seven) simp_all
qed

lemma startDay_less: "nat (getDay e t) < 7"
  by (simp add: getDay_def week_day_def nat_less_iff)

lemma buildMonthGrid_try_seven:
  assumes "buildMonthGrid_try e isoDates focusedIso = Inr g"
  shows "\<forall>w \<in> set (weeks g). length w = 7"
proof -
  from assms obtain cell days t p
    where "fill_weeks cell days (replicate (nat (getDay e t)) []) [] = Inr p"
      and "weeks g = close_weeks p"
    unfolding buildMonthGrid_try_def Let_def
    by (fastforce split: option.splits sum.splits simp del: fill_weeks.simps upt_Suc)
  then show ?thesis
    using fill_close_seven [OF _ startDay_less] by simp
qed

text \<open>Every week of the grid has seven entries, whatever the zone.\<close>

lemma buildMonthGrid_weeks_of_seven:
  "w \<in> set (weeks (snd (buildMonthGrid e isoDates focusedIso))) \<Longrightarrow> length w = 7"
  using buildMonthGrid_try_seven [of e isoDates focusedIso]
  by (auto simp: buildMonthGrid_def split: sum.splits)

lemma days_31:
  "[Suc 0..<32] =
     [Suc 0, 2, 3, 4, 5, 6, 7, 8, 9, 10, 11, 12, 13, 14, 15, 16, 17, 18, 19, 20, 21, 22, 23, 24,
      25, 26, 27, 28, 29, 30, 31]"
  by code_simp

lemma replicate_3: "replicate 3 x = [x, x, x]"
  by (simp add: numeral_3_eq_3)

lemma kolkata_anchor:
  "date_parse kolkata_env ''2025-12-15'' = Some 1765756800000"
  "getFullYear kolkata_env 1765756800000 = 2025"
  "getMonth kolkata_env 1765756800000 = 11"
  "new_Date kolkata_env 2025 11 1 = Some 1764527400000"
  "getDay kolkata_env 1764527400000 = 1"
  "new_Date kolkata_env 2025 12 0 = Some 1767119400000"
  "getDate kolkata_env 1767119400000 = 31"
  "available_key kolkata_env ''2025-12-15'' = ''2025-12-15''"
  by code_simp+

lemma kolkata_cells_1:
  "day_cell kolkata_env 2025 11 (Suc 0) = Inr ''2025-11-30''"
  "day_cell kolkata_env 2025 11 2 = Inr ''2025-12-01''"
  "day_cell kolkata_env 2025 11 3 = Inr ''2025-12-02''"
  "day_cell kolkata_env 2025 11 4 = Inr ''2025-12-03''"
  "day_cell kolkata_env 2025 11 5 = Inr ''2025-12-04''"
  "day_cell kolkata_env 2025 11 6 = Inr ''2025-12-05''"
  "day_cell kolkata_env 2025 11 7 = Inr ''2025-12-06''"
  "day_cell kolkata_env 2025 11 8 = Inr ''2025-12-07''"
  by code_simp+

lemma kolkata_cells_2:
  "day_cell kolkata_env 2025 11 9 = Inr ''2025-12-08''"
  "day_cell kolkata_env 2025 11 10 = Inr ''2025-12-09''"
  "day_cell kolkata_env 2025 11 11 = Inr ''2025-12-10''"
  "day_cell kolkata_env 2025 11 12 = Inr ''2025-12-11''"
  "day_cell kolkata_env 2025 11 13 = Inr ''2025-12-12''"
  "day_cell kolkata_env 2025 11 14 = Inr ''2025-12-13''"
  "day_cell kolkata_env 2025 11 15 = Inr ''2025-12-14''"
  "day_cell kolkata_env 2025 11 16 = Inr ''2025-12-15''"
  by code_simp+

lemma kolkata_cells_3:
  "day_cell kolkata_env 2025 11 17 = Inr ''2025-12-16''"
  "day_cell kolkata_env 2025 11 18 = Inr ''2025-12-17''"
  "day_cell kolkata_env 2025 11 19 = Inr ''2025-12-18''"
  "day_cell kolkata_env 2025 11 20 = Inr ''2025-12-19''"
  "day_cell kolkata_env 2025 11 21 = Inr ''2025-12-20''"
  "day_cell kolkata_env 2025 11 22 = Inr ''2025-12-21''"
  "day_cell kolkata_env 2025 11 23 = Inr ''2025-12-22''"
  "day_cell kolkata_env 2025 11 24 = Inr ''2025-12-23''"
  by code_simp+

lemma kolkata_cells_4:
  "day_cell kolkata_env 2025 11 25 = Inr ''2025-12-24''"
  "day_cell kolkata_env 2025 11 26 = Inr ''2025-12-25''"
  "day_cell kolkata_env 2025 11 27 = Inr ''2025-12-26''"
  "day_cell kolkata_env 2025 11 28 = Inr ''2025-12-27''"
  "day_cell kolkata_env 2025 11 29 = Inr ''2025-12-28''"
  "day_cell kolkata_env 2025 11 30 = Inr ''2025-12-29''"
  "day_cell kolkata_env 2025 11 31 = Inr ''2025-12-30''"
  by code_simp+

text \<open>With no offset from UTC the first day of December 2025 gets its own date.\<close>

lemma utc_first_cell:
  "day_cell (kolkata_env\<lparr>local_tza := 0\<rparr>) 2025 11 (Suc 0) = Inr ''2025-12-01''"
  by code_simp

text \<open>
  C10 at \<^verbatim>\<open>buildMonthGrid(["2025-12-15"])\<close> in the zone UTC+05:30. The anchor month is
  December 2025, which starts on a Monday and has 31 days. The cells are the dates from
  2025-11-30 to 2025-12-30: each is the day before the one it stands for, since the local
  midnight of a day is 18:30 UTC of the day before.
\<close>

theorem buildMonthGrid_kolkata:
  "buildMonthGrid kolkata_env [''2025-12-15''] None =
     ([],
      \<lparr>weeks =
         [[[], ''2025-11-30'', ''2025-12-01'', ''2025-12-02'', ''2025-12-03'', ''2025-12-04'',
           ''2025-12-05''],
          [''2025-12-06'', ''2025-12-07'', ''2025-12-08'', ''2025-12-09'', ''2025-12-10'',
           ''2025-12-11'', ''2025-12-12''],
          [''2025-12-13'', ''2025-12-14'', ''2025-12-15'', ''2025-12-16'', ''2025-12-17'',
           ''2025-12-18'', ''2025-12-19''],
          [''2025-12-20'', ''2025-12-21'', ''2025-12-22'', ''2025-12-23'', ''2025-12-24'',
           ''2025-12-25'', ''2025-12-26''],
          [''2025-12-27'', ''2025-12-28'', ''2025-12-29'', ''2025-12-30'', [], [], []]],
       grid_year = 2025, monthIndex = 11, availableSet = {''2025-12-15''},
       selectedIso = Some ''2025-12-15''\<rparr>)"
  by (simp add: buildMonthGrid_def buildMonthGrid_try_def selected_of_def kolkata_anchor
        kolkata_cells_1 kolkata_cells_2 kolkata_cells_3 kolkata_cells_4 days_31 replicate_3
        close_weeks_def del: upt_Suc)

end
